theory Spec2Isabelle
  imports Complex_Main "HOL-Library.Log_Nat"
begin

section \<open>Domain expiry check over RDAP: the program\<close>

text \<open>
  The script \<^verbatim>\<open>python_rdap_script_domain_expiry.py\<close> is a monitoring plugin: it reads
  a per-domain cache file, queries \<^verbatim>\<open>https://rdap.org/domain/<domain>\<close> on a miss,
  parses the expiration date and prints one status message before it exits with a
  plugin status code.

  Conventions of the embedding.
  \<^item> A Python object is a \<open>py_value\<close>; a Python \<^verbatim>\<open>str\<close> is a \<open>string\<close> whose
    characters stand for the code points 0 to 255.
  \<^item> A call ends in an \<open>outcome\<close>: it returns a value, an \<^verbatim>\<open>Exception\<close>
    propagates out of it, or \<^verbatim>\<open>sys.exit\<close> ends the process after it printed.
    Standard output takes every string.
  \<^item> What the process cannot decide is read from an \<open>env\<close>: the answer of the RDAP
    service, the clock readings, the local time zone and whether the cache file can be
    opened for writing. The file system says for each cache file what reading it gives:
    its text, or the exception raised. A file the program has written reads back as
    written; POSIX path and newline conventions apply. The timestamp of a date is
    computed in binary floating point, as \<^verbatim>\<open>datetime.timestamp\<close> does; clock readings
    are real numbers, compared exactly.
\<close>

subsection \<open>Python values, exceptions and outcomes\<close>

datatype py_value =
    PyNone
  | PyBool bool
  | PyInt int
  | PyFloat real
  | PyStr string
  | PyList "py_value list"
  | PyDict "(string \<times> py_value) list"

datatype py_exception =
    RequestError string
  | AttributeError string
  | TypeError string
  | OSError string
  | UnicodeDecodeError string

fun exc_text :: "py_exception \<Rightarrow> string" where
  "exc_text (RequestError msg) = msg"
| "exc_text (AttributeError msg) = msg"
| "exc_text (TypeError msg) = msg"
| "exc_text (OSError msg) = msg"
| "exc_text (UnicodeDecodeError msg) = msg"

datatype 'a outcome =
    Return 'a
  | Raise py_exception
  | Exit int string

text \<open>\<open>Exit state out\<close>: the process wrote \<open>out\<close> to standard output and left with
  exit code \<open>state\<close>.\<close>

fun type_name :: "py_value \<Rightarrow> string" where
  "type_name PyNone = ''NoneType''"
| "type_name (PyBool b) = ''bool''"
| "type_name (PyInt i) = ''int''"
| "type_name (PyFloat r) = ''float''"
| "type_name (PyStr s) = ''str''"
| "type_name (PyList xs) = ''list''"
| "type_name (PyDict kvs) = ''dict''"

text \<open>The type as the message of a rejected argument names it.\<close>

definition arg_type_name :: "py_value \<Rightarrow> string" where
  "arg_type_name v = (if v = PyNone then ''None'' else type_name v)"

text \<open>Truth value of an object, as \<^verbatim>\<open>if x:\<close> tests it.\<close>

fun truthy :: "py_value \<Rightarrow> bool" where
  "truthy PyNone = False"
| "truthy (PyBool b) = b"
| "truthy (PyInt i) = (i \<noteq> 0)"
| "truthy (PyFloat r) = (r \<noteq> 0)"
| "truthy (PyStr s) = (s \<noteq> [])"
| "truthy (PyList xs) = (xs \<noteq> [])"
| "truthy (PyDict kvs) = (kvs \<noteq> [])"

definition quote :: "string \<Rightarrow> string" where
  "quote s = CHR 0x27 # s @ [CHR 0x27]"

text \<open>\<^verbatim>\<open>obj.get(key, default)\<close>: only a dict has the method.\<close>

fun py_get :: "py_value \<Rightarrow> string \<Rightarrow> py_value \<Rightarrow> py_exception + py_value" where
  "py_get (PyDict kvs) key dflt =
     Inr (case map_of kvs key of Some v \<Rightarrow> v | None \<Rightarrow> dflt)"
| "py_get v key dflt =
     Inl (AttributeError (quote (type_name v) @ '' object has no attribute '' @ quote ''get''))"

text \<open>The items a \<^verbatim>\<open>for\<close> loop visits: the elements of a list, the characters of a
  string, the keys of a dict; other JSON values are not iterable.\<close>

fun py_iter :: "py_value \<Rightarrow> py_exception + py_value list" where
  "py_iter (PyList xs) = Inr xs"
| "py_iter (PyStr s) = Inr (map (\<lambda>c. PyStr [c]) s)"
| "py_iter (PyDict kvs) = Inr (map (\<lambda>kv. PyStr (fst kv)) kvs)"
| "py_iter v = Inl (TypeError (quote (type_name v) @ '' object is not iterable''))"

text \<open>\<^verbatim>\<open>str(n)\<close> for an integer.\<close>

fun str_nat :: "nat \<Rightarrow> string" where
  "str_nat n =
     (if n < 10 then [''0123456789'' ! n]
      else str_nat (n div 10) @ [''0123456789'' ! (n mod 10)])"

declare str_nat.simps [simp del]

definition str_int :: "int \<Rightarrow> string" where
  "str_int i = (if i < 0 then CHR ''-'' # str_nat (nat (- i)) else str_nat (nat i))"

text \<open>\<^verbatim>\<open>int(x)\<close> for a float: rounding toward zero.\<close>

definition py_int :: "real \<Rightarrow> int" where
  "py_int x = (if 0 \<le> x then \<lfloor>x\<rfloor> else \<lceil>x\<rceil>)"

subsection \<open>Binary floating point\<close>

text \<open>
  A Python \<^verbatim>\<open>float\<close> is an IEEE 754 binary64 number: the result of an operation is the
  exact result rounded to the nearest number with 53 significant bits, a tie going to the
  one with an even significand. \<open>round_float\<close> is that rounding; the numbers it is
  applied to here (epoch seconds of the years 1 to 9999, fractions of a second not below
  a microsecond, and their sums) are far from both ends of the exponent range, which is
  left out.
\<close>

definition round_half_even :: "real \<Rightarrow> int" where
  "round_half_even q =
     (let n = \<lfloor>q\<rfloor>; r = q - real_of_int n
      in if r < 1 / 2 then n else if 1 / 2 < r then n + 1 else if even n then n else n + 1)"

definition pow2 :: "int \<Rightarrow> real" where
  "pow2 e = (if 0 \<le> e then 2 ^ nat e else 1 / 2 ^ nat (- e))"

text \<open>The exponent \<open>e\<close> of a number \<open>x\<close> other than zero: \<open>2^e \<le> |x| < 2^(e+1)\<close>.\<close>

definition binary_exponent :: "real \<Rightarrow> int" where
  "binary_exponent x =
     (if 1 \<le> \<bar>x\<bar> then bitlen \<lfloor>\<bar>x\<bar>\<rfloor> - 1 else - bitlen (\<lceil>1 / \<bar>x\<bar>\<rceil> - 1))"

definition round_float :: "real \<Rightarrow> real" where
  "round_float x =
     (if x = 0 then 0
      else let ulp = pow2 (binary_exponent x - 52)
           in real_of_int (round_half_even (x / ulp)) * ulp)"

subsection \<open>Constants and \<^verbatim>\<open>die\<close>\<close>

definition CACHE_DIR :: string where
  "CACHE_DIR = ''/tmp/check_domain_cache''"

definition CACHE_AGE :: real where
  "CACHE_AGE = 8 * 3600"

definition STATE_OK :: int where "STATE_OK = 0"
definition STATE_WARNING :: int where "STATE_WARNING = 1"
definition STATE_CRITICAL :: int where "STATE_CRITICAL = 2"
definition STATE_UNKNOWN :: int where "STATE_UNKNOWN = 3"

definition LF :: char where "LF = CHR 0x0A"
definition CR :: char where "CR = CHR 0x0D"

text \<open>\<^verbatim>\<open>print(message); sys.exit(state)\<close>: \<^verbatim>\<open>print\<close> appends a line feed.\<close>

definition die :: "int \<Rightarrow> string \<Rightarrow> 'a outcome" where
  "die state message = Exit state (message @ [LF])"

subsection \<open>The environment and the file system\<close>

text \<open>A cache file has a modification time and a content: what opening and reading it in
  text mode gives, the text or the exception raised (permission denied, the path is a
  directory, bytes that do not decode).\<close>

record cache_file =
  mtime :: real
  content :: "py_exception + string"

type_synonym filesystem = "string \<rightharpoonup> cache_file"

text \<open>
  \<^item> \<open>rdap_service url\<close> is what \<^verbatim>\<open>requests.get(url, timeout=10)\<close> followed by
    \<^verbatim>\<open>response.json()\<close> gives: the text of the exception raised, or the decoded body.
  \<^item> \<open>open_error path\<close> is the text of the error that creating the cache directory and
    opening \<open>path\<close> for writing raises, if any.
  \<^item> \<open>clock_load\<close>, \<open>clock_write\<close> and \<open>clock_main\<close> are the time read in
    \<^verbatim>\<open>load_cached_data\<close>, the modification time the file system gives a written
    file, and the time read in \<^verbatim>\<open>main\<close>.
  \<^item> \<open>utcoffset u\<close> is the offset of local time from UTC, in seconds, at the instant
    \<open>u\<close>: \<^verbatim>\<open>time.localtime(u)\<close> shows the wall clock of \<open>u + utcoffset u\<close>.
\<close>

record env =
  rdap_service :: "string \<Rightarrow> string + py_value"
  open_error :: "string \<Rightarrow> string option"
  clock_load :: real
  clock_write :: real
  clock_main :: real
  utcoffset :: "int \<Rightarrow> int"

text \<open>The state the program changes: the cache files, and the requests it has sent.\<close>

record world =
  files :: filesystem
  requests_sent :: "string list"

subsection \<open>Cache store\<close>

text \<open>\<^verbatim>\<open>os.path.join(a, b)\<close> on POSIX.\<close>

definition path_join :: "string \<Rightarrow> string \<Rightarrow> string" where
  "path_join a b =
     (if b \<noteq> [] \<and> hd b = CHR ''/'' then b
      else if a = [] \<or> last a = CHR ''/'' then a @ b
      else a @ ''/'' @ b)"

definition get_cache_file :: "string \<Rightarrow> string" where
  "get_cache_file domain = path_join CACHE_DIR (domain @ ''.cache'')"

text \<open>Reading a file opened in text mode translates \<^verbatim>\<open>\r\n\<close> and \<^verbatim>\<open>\r\<close> to
  \<^verbatim>\<open>\n\<close>.\<close>

fun universal_newlines :: "string \<Rightarrow> string" where
  "universal_newlines [] = []"
| "universal_newlines [c] = [if c = CR then LF else c]"
| "universal_newlines (c # d # s) =
     (if c = CR \<and> d = LF then LF # universal_newlines s
      else (if c = CR then LF else c) # universal_newlines (d # s))"

text \<open>The characters \<^verbatim>\<open>str.strip()\<close> removes, among the code points below 256.\<close>

definition whitespace :: "char list" where
  "whitespace =
     [CHR 0x09, CHR 0x0A, CHR 0x0B, CHR 0x0C, CHR 0x0D, CHR 0x1C, CHR 0x1D, CHR 0x1E,
      CHR 0x1F, CHR 0x20, CHR 0x85, CHR 0xA0]"

definition is_space :: "char \<Rightarrow> bool" where
  "is_space c = (c \<in> set whitespace)"

definition strip :: "string \<Rightarrow> string" where
  "strip s = rev (dropWhile is_space (rev (dropWhile is_space s)))"

text \<open>The file is opened and read only when it exists and is fresh; nothing in
  \<^verbatim>\<open>load_cached_data\<close> catches what the reading raises.\<close>

definition load_cached_data :: "env \<Rightarrow> filesystem \<Rightarrow> string \<Rightarrow> py_exception + py_value" where
  "load_cached_data env fs domain =
     (let cache_file = get_cache_file domain in
      case fs cache_file of
        Some f \<Rightarrow>
          if clock_load env - mtime f < CACHE_AGE
          then (case content f of
                  Inl e \<Rightarrow> Inl e
                | Inr contents \<Rightarrow> Inr (PyStr (strip (universal_newlines contents))))
          else Inr PyNone
      | None \<Rightarrow> Inr PyNone)"

text \<open>Opening the file for writing creates or empties it; \<^verbatim>\<open>f.write\<close> takes a
  \<^verbatim>\<open>str\<close> only.\<close>

definition save_to_cache ::
  "env \<Rightarrow> filesystem \<Rightarrow> string \<Rightarrow> py_value \<Rightarrow> filesystem \<times> py_exception option" where
  "save_to_cache env fs domain data =
     (let cache_file = get_cache_file domain in
      case open_error env cache_file of
        Some msg \<Rightarrow> (fs, Some (OSError msg))
      | None \<Rightarrow>
          (case data of
             PyStr s \<Rightarrow>
               (fs(cache_file \<mapsto> \<lparr>mtime = clock_write env, content = Inr s\<rparr>), None)
           | _ \<Rightarrow>
               (fs(cache_file \<mapsto> \<lparr>mtime = clock_write env, content = Inr []\<rparr>),
                Some (TypeError (''write() argument must be str, not ''
                                 @ arg_type_name data)))))"

subsection \<open>Registration lookup\<close>

text \<open>The \<^verbatim>\<open>for event in events\<close> loop, with the statement that follows it as the end
  of the list.\<close>

fun events_loop ::
  "env \<Rightarrow> filesystem \<Rightarrow> string \<Rightarrow> py_value list \<Rightarrow> py_value outcome \<times> filesystem" where
  "events_loop env fs domain [] =
     (die STATE_UNKNOWN (''UNKNOWN - Expiry date not found for '' @ domain), fs)"
| "events_loop env fs domain (event # events) =
     (case py_get event ''eventAction'' PyNone of
        Inl e \<Rightarrow> (Raise e, fs)
      | Inr action \<Rightarrow>
          if action = PyStr ''expiration'' then
            (case py_get event ''eventDate'' PyNone of
               Inl e \<Rightarrow> (Raise e, fs)
             | Inr expiration \<Rightarrow>
                 if truthy expiration then
                   (case save_to_cache env fs domain expiration of
                      (fs', Some e) \<Rightarrow> (Raise e, fs')
                    | (fs', None) \<Rightarrow> (Return expiration, fs'))
                 else events_loop env fs domain events)
          else events_loop env fs domain events)"

text \<open>The body of the \<^verbatim>\<open>try\<close> block.\<close>

definition fetch_expiration ::
  "env \<Rightarrow> filesystem \<Rightarrow> string \<Rightarrow> string \<Rightarrow> py_value outcome \<times> filesystem" where
  "fetch_expiration env fs domain rdap_url =
     (case rdap_service env rdap_url of
        Inl msg \<Rightarrow> (Raise (RequestError msg), fs)
      | Inr data \<Rightarrow>
          (case py_get data ''events'' (PyList []) of
             Inl e \<Rightarrow> (Raise e, fs)
           | Inr events \<Rightarrow>
               (case py_iter events of
                  Inl e \<Rightarrow> (Raise e, fs)
                | Inr items \<Rightarrow> events_loop env fs domain items)))"

text \<open>The cache is read before the \<^verbatim>\<open>try\<close> block: what the reading raises leaves the
  function. \<^verbatim>\<open>except Exception\<close> catches what the block raises; \<^verbatim>\<open>SystemExit\<close> is
  not an \<^verbatim>\<open>Exception\<close> and passes through.\<close>

definition get_domain_expiration ::
  "env \<Rightarrow> world \<Rightarrow> string \<Rightarrow> py_value outcome \<times> world" where
  "get_domain_expiration env w domain =
     (case load_cached_data env (files w) domain of
        Inl e \<Rightarrow> (Raise e, w)
      | Inr cached \<Rightarrow>
          if truthy cached then (Return cached, w)
          else
            let rdap_url = ''https://rdap.org/domain/'' @ domain;
                sent = requests_sent w @ [rdap_url]
            in case fetch_expiration env (files w) domain rdap_url of
                 (Raise e, fs') \<Rightarrow>
                   (die STATE_UNKNOWN (''UNKNOWN - Error fetching RDAP data: '' @ exc_text e),
                    \<lparr>files = fs', requests_sent = sent\<rparr>)
               | (r, fs') \<Rightarrow> (r, \<lparr>files = fs', requests_sent = sent\<rparr>))"

subsection \<open>Date parser\<close>

text \<open>
  \<^verbatim>\<open>datetime.strptime\<close> turns the format into a regular expression, one group per
  directive, and matches it at the start of the string, ignoring case. Each directive is
  a list of alternatives, tried in order; an alternative is a sequence of character
  classes. These are the patterns of the library's \<^verbatim>\<open>_strptime.TimeRE\<close>.
\<close>

datatype fmt_item = Lit char | Dir char

fun compile_format :: "string \<Rightarrow> fmt_item list" where
  "compile_format [] = []"
| "compile_format [c] = [Lit c]"
| "compile_format (c # d # s) =
     (if c = CHR ''%'' then Dir d # compile_format s else Lit c # compile_format (d # s))"

definition digit :: string where
  "digit = ''0123456789''"

definition directive_pattern :: "char \<Rightarrow> string list list" where
  "directive_pattern d =
     (if d = CHR ''Y'' then [[digit, digit, digit, digit]]
      else if d = CHR ''m'' then [[''1'', ''012''], [''0'', ''123456789''], [''123456789'']]
      else if d = CHR ''d'' then
        [[''3'', ''01''], [''12'', digit], [''0'', ''123456789''], [''123456789''],
         ['' '', ''123456789'']]
      else if d = CHR ''H'' then [[''2'', ''0123''], [''01'', digit], [digit]]
      else if d = CHR ''M'' then [[''012345'', digit], [digit]]
      else if d = CHR ''S'' then [[''6'', ''01''], [''012345'', digit], [digit]]
      else if d = CHR ''f'' then
        [[digit, digit, digit, digit, digit, digit], [digit, digit, digit, digit, digit],
         [digit, digit, digit, digit], [digit, digit, digit], [digit, digit], [digit]]
      else [])"

fun match_classes :: "string list \<Rightarrow> string \<Rightarrow> (string \<times> string) option" where
  "match_classes [] s = Some ([], s)"
| "match_classes (cls # clss) [] = None"
| "match_classes (cls # clss) (c # s) =
     (if c \<in> set cls
      then (case match_classes clss s of Some (m, rest) \<Rightarrow> Some (c # m, rest) | None \<Rightarrow> None)
      else None)"

text \<open>Lower case of an ASCII letter: the only letters of the two formats are
  \<^verbatim>\<open>T\<close> and \<^verbatim>\<open>Z\<close>.\<close>

definition lower :: "char \<Rightarrow> char" where
  "lower c =
     (case map_of (zip ''ABCDEFGHIJKLMNOPQRSTUVWXYZ'' ''abcdefghijklmnopqrstuvwxyz'') c of
        Some l \<Rightarrow> l
      | None \<Rightarrow> c)"

text \<open>All the ways the expression matches a prefix of the string, in the order
  backtracking finds them: the groups, and the rest of the string.\<close>

fun match_format :: "fmt_item list \<Rightarrow> string \<Rightarrow> ((char \<times> string) list \<times> string) list" where
  "match_format [] s = [([], s)]"
| "match_format (Lit c # fmt) s =
     (case s of
        [] \<Rightarrow> []
      | c' # s' \<Rightarrow> if lower c' = lower c then match_format fmt s' else [])"
| "match_format (Dir d # fmt) s =
     concat (map (\<lambda>(m, rest). map (\<lambda>(groups, rest'). ((d, m) # groups, rest'))
                                   (match_format fmt rest))
                 (List.map_filter (\<lambda>alt. match_classes alt s) (directive_pattern d)))"

text \<open>\<^verbatim>\<open>int(s)\<close> for the text of a group: digits, after an optional blank.\<close>

definition int_of_str :: "string \<Rightarrow> int" where
  "int_of_str s = int (foldl (\<lambda>a c. 10 * a + (of_char c - 48)) 0 (strip s))"

record datetime =
  year :: int
  month :: int
  day :: int
  hour :: int
  minute :: int
  second :: int
  microsecond :: int

definition MINYEAR :: int where "MINYEAR = 1"
definition MAXYEAR :: int where "MAXYEAR = 9999"

definition is_leap :: "int \<Rightarrow> bool" where
  "is_leap y = (y mod 4 = 0 \<and> (y mod 100 \<noteq> 0 \<or> y mod 400 = 0))"

definition DAYS_IN_MONTH :: "int list" where
  "DAYS_IN_MONTH = [-1, 31, 28, 31, 30, 31, 30, 31, 31, 30, 31, 30, 31]"

definition DAYS_BEFORE_MONTH :: "int list" where
  "DAYS_BEFORE_MONTH = [-1, 0, 31, 59, 90, 120, 151, 181, 212, 243, 273, 304, 334]"

definition days_before_year :: "int \<Rightarrow> int" where
  "days_before_year y' =
     (let y = y' - 1 in y * 365 + y div 4 - y div 100 + y div 400)"

definition days_in_month :: "int \<Rightarrow> int \<Rightarrow> int" where
  "days_in_month y m = (if m = 2 \<and> is_leap y then 29 else DAYS_IN_MONTH ! nat m)"

definition days_before_month :: "int \<Rightarrow> int \<Rightarrow> int" where
  "days_before_month y m =
     DAYS_BEFORE_MONTH ! nat m + (if m > 2 \<and> is_leap y then 1 else 0)"

definition ymd2ord :: "int \<Rightarrow> int \<Rightarrow> int \<Rightarrow> int" where
  "ymd2ord y m d = days_before_year y + days_before_month y m + d"

definition check_date_fields :: "int \<Rightarrow> int \<Rightarrow> int \<Rightarrow> bool" where
  "check_date_fields y m d =
     (MINYEAR \<le> y \<and> y \<le> MAXYEAR \<and> 1 \<le> m \<and> m \<le> 12 \<and> 1 \<le> d \<and> d \<le> days_in_month y m)"

definition check_time_fields :: "int \<Rightarrow> int \<Rightarrow> int \<Rightarrow> int \<Rightarrow> bool" where
  "check_time_fields h mi s us =
     (0 \<le> h \<and> h \<le> 23 \<and> 0 \<le> mi \<and> mi \<le> 59 \<and> 0 \<le> s \<and> s \<le> 59 \<and> 0 \<le> us \<and> us \<le> 999999)"

definition group_int :: "(char \<times> string) list \<Rightarrow> char \<Rightarrow> int \<Rightarrow> int" where
  "group_int found_dict d dflt =
     (case map_of found_dict d of Some s \<Rightarrow> int_of_str s | None \<Rightarrow> dflt)"

text \<open>\<open>None\<close> stands for the \<^verbatim>\<open>ValueError\<close> of \<^verbatim>\<open>strptime\<close>: the string does not
  match, text remains after the match, or the fields are not a date and a time.\<close>

definition strptime :: "string \<Rightarrow> string \<Rightarrow> datetime option" where
  "strptime data_string format =
     (case match_format (compile_format format) data_string of
        [] \<Rightarrow> None
      | (found_dict, rest) # _ \<Rightarrow>
          if rest \<noteq> [] then None
          else
            let y = group_int found_dict (CHR ''Y'') 1900;
                m = group_int found_dict (CHR ''m'') 1;
                d = group_int found_dict (CHR ''d'') 1;
                h = group_int found_dict (CHR ''H'') 0;
                mi = group_int found_dict (CHR ''M'') 0;
                s = group_int found_dict (CHR ''S'') 0;
                fraction =
                  (case map_of found_dict (CHR ''f'') of
                     Some f \<Rightarrow> int_of_str (f @ replicate (6 - length f) (CHR ''0''))
                   | None \<Rightarrow> 0)
            in if check_date_fields y m d \<and> check_time_fields h mi s fraction
               then Some \<lparr>year = y, month = m, day = d, hour = h, minute = mi, second = s,
                          microsecond = fraction\<rparr>
               else None)"

text \<open>\<^verbatim>\<open>datetime.timestamp()\<close> of a datetime without time zone reads it as local time:
  \<^verbatim>\<open>_mktime\<close> looks for the instant \<open>u\<close> whose local wall clock is the datetime. The
  wall clock of an instant is a datetime again, so its year must lie between
  \<^verbatim>\<open>MINYEAR\<close> and \<^verbatim>\<open>MAXYEAR\<close>: \<open>None\<close> stands for the \<^verbatim>\<open>ValueError\<close> raised
  otherwise.\<close>

definition in_year_range :: "int \<Rightarrow> bool" where
  "in_year_range x =
     ((ymd2ord MINYEAR 1 1 - ymd2ord 1970 1 1) * 86400 \<le> x
      \<and> x < (ymd2ord MAXYEAR 12 31 - ymd2ord 1970 1 1 + 1) * 86400)"

definition local_seconds :: "env \<Rightarrow> int \<Rightarrow> int option" where
  "local_seconds env u =
     (if in_year_range (u + utcoffset env u) then Some (u + utcoffset env u) else None)"

text \<open>The end of \<^verbatim>\<open>_mktime\<close>, once both offsets \<open>a\<close> and \<open>b\<close> are known.\<close>

definition mktime_rest :: "env \<Rightarrow> int \<Rightarrow> int \<Rightarrow> int \<Rightarrow> int \<Rightarrow> int option" where
  "mktime_rest env t u1 t1 b =
     (let u2 = t - b
      in case local_seconds env u2 of
           None \<Rightarrow> None
         | Some t2 \<Rightarrow> Some (if t2 = t then u2 else if t1 = t then u1 else max u1 u2))"

definition mktime :: "env \<Rightarrow> datetime \<Rightarrow> int option" where
  "mktime env dt =
     (let t = (ymd2ord (year dt) (month dt) (day dt) - ymd2ord 1970 1 1) * 86400
              + hour dt * 3600 + minute dt * 60 + second dt
      in case local_seconds env t of
           None \<Rightarrow> None
         | Some lt \<Rightarrow>
             let a = lt - t; u1 = t - a
             in case local_seconds env u1 of
                  None \<Rightarrow> None
                | Some t1 \<Rightarrow>
                    if t1 = t then
                      (let u2 = u1 - 24 * 3600
                       in case local_seconds env u2 of
                            None \<Rightarrow> None
                          | Some lt2 \<Rightarrow>
                              let b = lt2 - u2
                              in if a = b then Some u1 else mktime_rest env t u1 t1 b)
                    else mktime_rest env t u1 t1 (t1 - u1))"

text \<open>\<^verbatim>\<open>timestamp\<close> adds the microseconds to the seconds of \<^verbatim>\<open>_mktime\<close> as floats:
  \<^verbatim>\<open>s + self.microsecond / 1e6\<close>. Both integers convert to floats without rounding.\<close>

definition timestamp :: "env \<Rightarrow> datetime \<Rightarrow> real option" where
  "timestamp env dt =
     (case mktime env dt of
        None \<Rightarrow> None
      | Some s \<Rightarrow>
          Some (round_float (real_of_int s
                             + round_float (real_of_int (microsecond dt) / 1000000))))"

text \<open>One attempt of \<^verbatim>\<open>parse_rdap_date\<close>: \<open>None\<close> when \<^verbatim>\<open>strptime\<close> or
  \<^verbatim>\<open>timestamp\<close> raises \<^verbatim>\<open>ValueError\<close>, which the \<^verbatim>\<open>except\<close> clause catches.\<close>

definition try_format :: "env \<Rightarrow> string \<Rightarrow> string \<Rightarrow> int option" where
  "try_format env date_str format =
     (case strptime date_str format of
        None \<Rightarrow> None
      | Some dt \<Rightarrow>
          (case timestamp env dt of None \<Rightarrow> None | Some x \<Rightarrow> Some (py_int x)))"

definition parse_rdap_date :: "env \<Rightarrow> string \<Rightarrow> int outcome" where
  "parse_rdap_date env date_str =
     (case try_format env date_str ''%Y-%m-%dT%H:%M:%S.%fZ'' of
        Some t \<Rightarrow> Return t
      | None \<Rightarrow>
          (case try_format env date_str ''%Y-%m-%dT%H:%M:%SZ'' of
             Some t \<Rightarrow> Return t
           | None \<Rightarrow>
               die STATE_UNKNOWN (''UNKNOWN - Invalid expiration date format: '' @ date_str)))"

subsection \<open>Threshold evaluation and \<^verbatim>\<open>main\<close>\<close>

record args =
  domain :: string
  warning :: int
  critical :: int

text \<open>Line 85 of the script.\<close>

definition days_left :: "int \<Rightarrow> int \<Rightarrow> int" where
  "days_left exp_seconds now_seconds = (exp_seconds - now_seconds) div 86400"

text \<open>Lines 87 to 94: the chain of comparisons that ends \<^verbatim>\<open>main\<close>.\<close>

definition report :: "args \<Rightarrow> string \<Rightarrow> int \<Rightarrow> 'a outcome" where
  "report a expiration_date dl =
     (if dl < 0 then
        die STATE_CRITICAL
          (''CRITICAL - Domain '' @ domain a @ '' expired '' @ str_int (- dl)
           @ '' days ago ('' @ expiration_date @ '').'')
      else if dl < critical a then
        die STATE_CRITICAL
          (''CRITICAL - Domain '' @ domain a @ '' will expire in '' @ str_int dl
           @ '' days ('' @ expiration_date @ '').'')
      else if dl < warning a then
        die STATE_WARNING
          (''WARNING - Domain '' @ domain a @ '' will expire in '' @ str_int dl
           @ '' days ('' @ expiration_date @ '').'')
      else
        die STATE_OK
          (''OK - Domain '' @ domain a @ '' will expire in '' @ str_int dl
           @ '' days ('' @ expiration_date @ '').''))"

text \<open>\<^verbatim>\<open>main\<close> after the arguments are parsed. \<^verbatim>\<open>strptime\<close> takes a
  \<^verbatim>\<open>str\<close> only.\<close>

definition main :: "env \<Rightarrow> world \<Rightarrow> args \<Rightarrow> unit outcome \<times> world" where
  "main env w a =
     (case get_domain_expiration env w (domain a) of
        (Return expiration_date, w') \<Rightarrow>
          (case expiration_date of
             PyStr date_str \<Rightarrow>
               (case parse_rdap_date env date_str of
                  Return exp_seconds \<Rightarrow>
                    (let now_seconds = py_int (clock_main env)
                     in report a date_str (days_left exp_seconds now_seconds), w')
                | Raise e \<Rightarrow> (Raise e, w')
                | Exit state out \<Rightarrow> (Exit state out, w'))
           | _ \<Rightarrow>
               (Raise (TypeError (''strptime() argument 1 must be str, not ''
                                  @ arg_type_name expiration_date)), w'))
      | (Raise e, w') \<Rightarrow> (Raise e, w')
      | (Exit state out, w') \<Rightarrow> (Exit state out, w'))"

text \<open>Lines 97 and 98: the script calls \<^verbatim>\<open>main\<close>. What the process leaves behind is
  its standard output and its exit code. An exception that nothing catches ends it with
  a traceback on standard error, nothing on standard output and exit code 1.\<close>

definition run :: "env \<Rightarrow> world \<Rightarrow> args \<Rightarrow> string \<times> int" where
  "run env w a =
     (case fst (main env w a) of
        Exit state out \<Rightarrow> (out, state)
      | Raise e \<Rightarrow> ([], 1)
      | Return u \<Rightarrow> ([], 0))"

subsection \<open>Notions used to state the properties\<close>

text \<open>An event object is a dict. Its date is its \<^verbatim>\<open>eventDate\<close> field, \<^verbatim>\<open>None\<close> when
  the field is absent. An event has an expiration date when its \<^verbatim>\<open>eventAction\<close> is
  \<^verbatim>\<open>"expiration"\<close> and its date is not empty.\<close>

definition is_dict :: "py_value \<Rightarrow> bool" where
  "is_dict v = (case v of PyDict kvs \<Rightarrow> True | _ \<Rightarrow> False)"

definition event_date :: "py_value \<Rightarrow> py_value" where
  "event_date event = (case py_get event ''eventDate'' PyNone of Inr v \<Rightarrow> v | Inl e \<Rightarrow> PyNone)"

definition has_expiration_date :: "py_value \<Rightarrow> bool" where
  "has_expiration_date event =
     (py_get event ''eventAction'' PyNone = Inr (PyStr ''expiration'')
      \<and> truthy (event_date event))"

subsection \<open>Sample inputs\<close>

text \<open>An environment in which the lookup service times out, the cache directory is
  writable and local time is UTC; and a world whose only file is the cache of one
  domain.\<close>

definition sample_env :: env where
  "sample_env =
     \<lparr>rdap_service = (\<lambda>url. Inl ''Read timed out.''), open_error = (\<lambda>path. None),
      clock_load = 1740000000, clock_write = 1740000000, clock_main = 1740000000,
      utcoffset = (\<lambda>u. 0)\<rparr>"

definition cache_only :: "string \<Rightarrow> real \<Rightarrow> string \<Rightarrow> world" where
  "cache_only d t c =
     \<lparr>files = [get_cache_file d \<mapsto> \<lparr>mtime = t, content = Inr c\<rparr>], requests_sent = []\<rparr>"

text \<open>The error of opening a file that the process may not read, and a world whose
  only file is such a cache file.\<close>

definition permission_denied :: "string \<Rightarrow> py_exception" where
  "permission_denied path = OSError (''[Errno 13] Permission denied: '' @ quote path)"

definition unreadable_cache :: "string \<Rightarrow> real \<Rightarrow> world" where
  "unreadable_cache d t =
     \<lparr>files = [get_cache_file d \<mapsto>
                 \<lparr>mtime = t, content = Inl (permission_denied (get_cache_file d))\<rparr>],
      requests_sent = []\<rparr>"

text \<open>A registration event, an expiration event without a date, and two dated expiration
  events; an environment in which the lookup service answers with given events; a world
  without files; and the arguments \<^verbatim>\<open>-d example.com\<close> with the default thresholds.\<close>

definition sample_events :: "py_value list" where
  "sample_events =
     [PyDict [(''eventAction'', PyStr ''registration''),
              (''eventDate'', PyStr ''1995-08-14T04:00:00Z'')],
      PyDict [(''eventAction'', PyStr ''expiration'')],
      PyDict [(''eventAction'', PyStr ''expiration''),
              (''eventDate'', PyStr ''2030-08-13T04:00:00Z'')],
      PyDict [(''eventAction'', PyStr ''expiration''),
              (''eventDate'', PyStr ''2031-08-13T04:00:00Z'')]]"

definition answering :: "py_value list \<Rightarrow> env" where
  "answering events =
     sample_env\<lparr>rdap_service :=
       (\<lambda>url. Inr (PyDict [(''objectClassName'', PyStr ''domain''), (''events'', PyList events)]))\<rparr>"

definition empty_world :: world where
  "empty_world = \<lparr>files = Map.empty, requests_sent = []\<rparr>"

definition sample_args :: args where
  "sample_args = \<lparr>domain = ''example.com'', warning = 30, critical = 10\<rparr>"

section \<open>Properties\<close>

subsection \<open>Printing integers\<close>

lemma str_nat_nonempty: "str_nat n \<noteq> []"
  by (subst str_nat.simps) simp

lemma digit_char_zero:
  assumes "n < 10"
  shows "(''0123456789'' ! n = CHR ''0'') = (n = 0)"
proof -
  from assms have "n \<in> {0, 1, 2, 3, 4, 5, 6, 7, 8, 9}" by auto
  then show ?thesis by auto
qed

lemma str_nat_zero_iff: "(str_nat n = ''0'') = (n = 0)"
proof (cases "n < 10")
  case True
  then show ?thesis
    by (subst str_nat.simps) (simp add: digit_char_zero)
next
  case False
  then have "str_nat n = str_nat (n div 10) @ [''0123456789'' ! (n mod 10)]"
    by (subst str_nat.simps) simp
  moreover have "str_nat (n div 10) \<noteq> []" by (rule str_nat_nonempty)
  ultimately have "length (str_nat n) \<noteq> 1"
    by (cases "str_nat (n div 10)") simp_all
  with False show ?thesis by auto
qed

lemma str_int_zero_iff: "(str_int i = ''0'') = (i = 0)"
proof (cases "i < 0")
  case True
  then show ?thesis by (simp add: str_int_def)
next
  case False
  then show ?thesis by (simp add: str_int_def str_nat_zero_iff)
qed

lemma str_int_1: "str_int 1 = ''1''" and str_int_5: "str_int 5 = ''5''"
  and str_int_10: "str_int 10 = ''10''" and str_int_20: "str_int 20 = ''20''"
  and str_int_30: "str_int 30 = ''30''"
  by code_simp+

subsection \<open>Binary floating point\<close>

lemma round_half_even_int: "round_half_even (real_of_int m) = m"
  by (simp add: round_half_even_def)

lemma round_half_even_bounds:
  "real_of_int (round_half_even q) \<le> q + 1 / 2" "q - 1 / 2 \<le> real_of_int (round_half_even q)"
  unfolding round_half_even_def Let_def by (auto; linarith)+

lemma round_half_even_ge: "real_of_int m \<le> q \<Longrightarrow> m \<le> round_half_even q"
  unfolding round_half_even_def Let_def by (auto simp: le_floor_iff; linarith)

lemma binary_exponent_int:
  assumes "0 < s" "0 \<le> f" "f < 1"
  shows "binary_exponent (real_of_int s + f) = bitlen s - 1"
proof -
  have "\<lfloor>real_of_int s + f\<rfloor> = s" using assms by linarith
  moreover have "1 \<le> real_of_int s + f" using assms by linarith
  ultimately show ?thesis using assms by (simp add: binary_exponent_def abs_if)
qed

lemma inverse_power_mono:
  assumes "m \<le> n"
  shows "1 / 2 ^ n \<le> (1 / 2 ^ m :: real)"
proof -
  from assms have "(2::real) ^ m \<le> 2 ^ n" by (intro power_increasing) auto
  then show ?thesis by (simp add: field_simps)
qed

lemma exponent_below:
  assumes "(2::int) ^ nat e \<le> a" "a < 2 ^ k"
  shows "nat e < k"
proof -
  from assms have "(2::int) ^ nat e < 2 ^ k" by linarith
  from power_less_imp_less_exp [OF one_less_numeral_iff [THEN iffD2] this]
  show ?thesis by simp
qed

text \<open>The double nearest to a fraction of a second is a fraction of a second.\<close>

lemma round_float_fraction:
  assumes "0 \<le> x" "x < 1"
  shows "0 \<le> round_float x" "round_float x \<le> x + 1 / 2 ^ 54"
proof -
  have "0 \<le> round_float x \<and> round_float x \<le> x + 1 / 2 ^ 54"
  proof (cases "x = 0")
    case True then show ?thesis by (simp add: round_float_def)
  next
    case False
    with assms have x: "0 < x" by simp
    define b where "b = bitlen (\<lceil>1 / x\<rceil> - 1)"
    have "1 < 1 / x" using x assms(2) by simp
    then have "2 \<le> \<lceil>1 / x\<rceil>" by linarith
    then have "0 < \<lceil>1 / x\<rceil> - 1" by simp
    then have b1: "1 \<le> b" unfolding b_def by (simp add: bitlen_alt_def)
    have be: "binary_exponent x = - b"
      using x assms(2) by (simp add: binary_exponent_def b_def)
    define n where "n = nat (b + 52)"
    have n53: "53 \<le> n" using b1 by (simp add: n_def)
    have ulp: "pow2 (- b - 52) = 1 / 2 ^ n"
      using b1 by (simp add: pow2_def n_def)
    define q where "q = x * 2 ^ n"
    define r where "r = round_half_even q"
    have rf: "round_float x = real_of_int r / 2 ^ n"
      using False by (simp add: round_float_def be ulp Let_def q_def r_def)
    have "real_of_int 0 \<le> q" using x by (simp add: q_def)
    then have "0 \<le> r" unfolding r_def by (rule round_half_even_ge)
    then have lo: "0 \<le> real_of_int r / 2 ^ n" by simp
    have "real_of_int r \<le> q + 1 / 2" unfolding r_def by (rule round_half_even_bounds)
    then have "real_of_int r / 2 ^ n \<le> (q + 1 / 2) / 2 ^ n"
      by (simp add: divide_right_mono)
    also have "\<dots> = x + (1 / 2) * (1 / 2 ^ n)" by (simp add: q_def field_simps)
    also have "\<dots> \<le> x + (1 / 2) * (1 / 2 ^ 53)"
      using inverse_power_mono [OF n53] by simp
    also have "\<dots> = x + 1 / 2 ^ 54" by simp
    finally have "real_of_int r / 2 ^ n \<le> x + 1 / 2 ^ 54" .
    with lo show ?thesis unfolding rf by simp
  qed
  then show "0 \<le> round_float x" "round_float x \<le> x + 1 / 2 ^ 54" by simp_all
qed

text \<open>A positive integer below \<open>2^33\<close> plus a fraction that stays \<open>2^-21\<close> below one is
  rounded to a double that truncates back to the integer.\<close>

lemma trunc_round_float_add:
  assumes s: "0 < s" "s < 2 ^ 33" and f: "0 \<le> f" "f + 1 / 2 ^ 21 < 1"
  shows "py_int (round_float (real_of_int s + f)) = s"
proof -
  define x where "x = real_of_int s + f"
  define e where "e = bitlen s - 1"
  have f1: "f < 1" using f(2) by (simp add: field_simps)
  have x0: "x \<noteq> 0" "0 < x" using s f by (simp_all add: x_def add_pos_nonneg)
  have be: "binary_exponent x = e"
    unfolding x_def e_def using s f f1 by (intro binary_exponent_int) auto
  from bitlen_bounds [OF s(1)] have b: "2 ^ nat e \<le> s" by (simp add: e_def)
  have e0: "0 \<le> e" using s(1) by (simp add: e_def bitlen_alt_def)
  from exponent_below [OF b s(2)] e0 have e32: "e \<le> 32" by linarith
  define n where "n = nat (52 - e)"
  have n20: "20 \<le> n" using e32 by (simp add: n_def)
  have ulp: "pow2 (e - 52) = 1 / 2 ^ n"
    using e32 by (simp add: pow2_def n_def)
  define q where "q = x * 2 ^ n"
  define r where "r = round_half_even q"
  have rf: "round_float x = real_of_int r / 2 ^ n"
    using x0 by (simp add: round_float_def be ulp Let_def q_def r_def)
  have "real_of_int (s * 2 ^ n) \<le> q"
    using f by (simp add: q_def x_def algebra_simps)
  then have "s * 2 ^ n \<le> r" unfolding r_def by (rule round_half_even_ge)
  then have "real_of_int (s * 2 ^ n) \<le> real_of_int r" by (simp only: of_int_le_iff)
  then have lo: "real_of_int s \<le> real_of_int r / 2 ^ n"
    by (simp add: field_simps)
  have "real_of_int r \<le> q + 1 / 2" unfolding r_def by (rule round_half_even_bounds)
  then have "real_of_int r / 2 ^ n \<le> (q + 1 / 2) / 2 ^ n"
    by (simp add: divide_right_mono)
  also have "\<dots> = x + (1 / 2) * (1 / 2 ^ n)" by (simp add: q_def field_simps)
  also have "\<dots> \<le> x + (1 / 2) * (1 / 2 ^ 20)"
    using inverse_power_mono [OF n20] by simp
  also have "\<dots> = real_of_int s + (f + 1 / 2 ^ 21)" by (simp add: x_def)
  also have "\<dots> < real_of_int s + 1" using f(2) by simp
  finally have hi: "real_of_int r / 2 ^ n < real_of_int s + 1" .
  from lo hi have "\<lfloor>real_of_int r / 2 ^ n\<rfloor> = s" by linarith
  moreover from lo s(1) have "0 \<le> real_of_int r / 2 ^ n" by linarith
  ultimately show ?thesis unfolding x_def [symmetric] rf by (simp add: py_int_def)
qed

text \<open>Up to the year 2242 the fraction of a second is cut off: the timestamp of a
  positive second \<open>s\<close> and \<open>us\<close> microseconds truncates to \<open>s\<close>.\<close>

lemma trunc_timestamp:
  assumes "0 < s" "s < 2 ^ 33" "0 \<le> us" "us < 1000000"
  shows "py_int (round_float (real_of_int s + round_float (real_of_int us / 1000000))) = s"
proof -
  define x where "x = real_of_int us / 1000000"
  have x: "0 \<le> x" "x \<le> 999999 / 1000000"
    using assms(3,4) by (simp_all add: x_def)
  then have "x < 1" by simp
  from round_float_fraction [OF x(1) this]
  have f: "0 \<le> round_float x" "round_float x \<le> x + 1 / 2 ^ 54" by simp_all
  from f(2) x(2) have "round_float x + 1 / 2 ^ 21 \<le> 999999 / 1000000 + 1 / 2 ^ 54 + 1 / 2 ^ 21"
    by simp
  also have "\<dots> < (1::real)" by simp
  finally have "round_float x + 1 / 2 ^ 21 < 1" .
  from trunc_round_float_add [OF assms(1,2) f(1) this] show ?thesis by (simp add: x_def)
qed


text \<open>From the year 2514 on a fraction of 999999 microseconds is rounded up to the next
  second: the spacing of the floats there is above two microseconds.\<close>

lemma bitlen_examples: "bitlen 1 = 1" "bitlen 17179869184 = 35"
proof -
  show 1: "bitlen 1 = 1" by (simp add: bitlen_alt_def)
  from bitlen_pow2 [of 1 34] 1 show "bitlen 17179869184 = 35" by simp
qed

lemma round_float_999999:
  "round_float (999999 / 1000000) = 9007190247541737 / 2 ^ 53"
  by (simp add: round_float_def binary_exponent_def pow2_def round_half_even_def Let_def
      bitlen_examples)

lemma round_up_example:
  "py_int (round_float (real_of_int 17179869184 + round_float (999999 / 1000000)))
     = 17179869185"
  unfolding round_float_999999
  by (simp add: round_float_def binary_exponent_def pow2_def round_half_even_def Let_def
      bitlen_examples py_int_def)

subsection \<open>Threshold evaluation\<close>

text \<open>
  C4. For every pair of epoch seconds, the days left are the floor of the difference
  divided by 86400: the quotient rounds toward negative infinity, also for a negative
  difference. One second past expiry is day \<open>-1\<close>, where rounding toward zero would
  give day \<open>0\<close>.
\<close>

theorem days_left_floor:
  "days_left exp_seconds now_seconds = \<lfloor>real_of_int (exp_seconds - now_seconds) / 86400\<rfloor>
   \<and> days_left exp_seconds now_seconds * 86400 \<le> exp_seconds - now_seconds
   \<and> exp_seconds - now_seconds < (days_left exp_seconds now_seconds + 1) * 86400
   \<and> days_left 0 1 = - 1"
proof -
  define x where "x = exp_seconds - now_seconds"
  have "\<lfloor>real_of_int x / real_of_int 86400\<rfloor> = x div 86400"
    by (rule floor_divide_of_int_eq)
  then have a: "days_left exp_seconds now_seconds = \<lfloor>real_of_int (exp_seconds - now_seconds) / 86400\<rfloor>"
    by (simp add: days_left_def x_def)
  have e: "x div 86400 * 86400 + x mod 86400 = x" by (rule div_mult_mod_eq)
  have lo: "0 \<le> x mod 86400" by simp
  have hi: "x mod 86400 < 86400" by simp
  have b: "days_left exp_seconds now_seconds * 86400 \<le> exp_seconds - now_seconds"
    unfolding days_left_def x_def [symmetric] using e lo by linarith
  have c: "exp_seconds - now_seconds < (days_left exp_seconds now_seconds + 1) * 86400"
    unfolding days_left_def x_def [symmetric] using e hi by (simp add: algebra_simps)
  have d: "days_left 0 1 = - 1" by (simp add: days_left_def)
  from a b c d show ?thesis by blast
qed

text \<open>
  C3, as amended. The chain is first match wins, with strict comparisons: negative days
  left give CRITICAL with ``expired N days ago'', \<open>N\<close> the negated days left; otherwise
  days left below the critical threshold give CRITICAL; otherwise days left below the
  warning threshold give WARNING; otherwise OK. At the boundaries an earlier branch can
  still fire: days left equal to the critical threshold are not CRITICAL when they are
  not negative, and days left equal to the warning threshold are OK when they are not
  negative and the critical threshold is not above the warning threshold.
\<close>

theorem report_decision_order:
  "(days_left e n < 0 \<longrightarrow>
      report a d (days_left e n) =
        (Exit 2 (''CRITICAL - Domain '' @ domain a @ '' expired '' @ str_int (- days_left e n)
                 @ '' days ago ('' @ d @ '').'' @ [LF]) :: unit outcome))
   \<and> (0 \<le> days_left e n \<and> days_left e n < critical a \<longrightarrow>
      report a d (days_left e n) =
        (Exit 2 (''CRITICAL - Domain '' @ domain a @ '' will expire in '' @ str_int (days_left e n)
                 @ '' days ('' @ d @ '').'' @ [LF]) :: unit outcome))
   \<and> (0 \<le> days_left e n \<and> critical a \<le> days_left e n \<and> days_left e n < warning a \<longrightarrow>
      report a d (days_left e n) =
        (Exit 1 (''WARNING - Domain '' @ domain a @ '' will expire in '' @ str_int (days_left e n)
                 @ '' days ('' @ d @ '').'' @ [LF]) :: unit outcome))
   \<and> (0 \<le> days_left e n \<and> critical a \<le> days_left e n \<and> warning a \<le> days_left e n \<longrightarrow>
      report a d (days_left e n) =
        (Exit 0 (''OK - Domain '' @ domain a @ '' will expire in '' @ str_int (days_left e n)
                 @ '' days ('' @ d @ '').'' @ [LF]) :: unit outcome))
   \<and> (0 \<le> days_left e n \<and> days_left e n = critical a \<longrightarrow>
      (\<forall>out. report a d (days_left e n) \<noteq> (Exit 2 out :: unit outcome)))
   \<and> (0 \<le> days_left e n \<and> critical a \<le> warning a \<and> days_left e n = warning a \<longrightarrow>
      report a d (days_left e n) =
        (Exit 0 (''OK - Domain '' @ domain a @ '' will expire in '' @ str_int (days_left e n)
                 @ '' days ('' @ d @ '').'' @ [LF]) :: unit outcome))"
  by (simp add: report_def die_def STATE_OK_def STATE_WARNING_def STATE_CRITICAL_def)

text \<open>The chain at warning 30 and critical 10, with 5 days past expiry and with 5, 10, 20
  and 30 days left.\<close>

theorem report_decision_order_witness:
  "days_left 0 432000 < 0
   \<and> report \<lparr>domain = ''example.com'', warning = 30, critical = 10\<rparr> ''2025-03-01T00:00:00Z''
        (days_left 0 432000)
      = (Exit 2 (''CRITICAL - Domain example.com expired 5 days ago (2025-03-01T00:00:00Z).''
                 @ [LF]) :: unit outcome)
   \<and> days_left 432000 0 = 5
   \<and> report \<lparr>domain = ''example.com'', warning = 30, critical = 10\<rparr> ''2025-03-01T00:00:00Z''
        (days_left 432000 0)
      = (Exit 2 (''CRITICAL - Domain example.com will expire in 5 days (2025-03-01T00:00:00Z).''
                 @ [LF]) :: unit outcome)
   \<and> days_left 864000 0 = 10
   \<and> report \<lparr>domain = ''example.com'', warning = 30, critical = 10\<rparr> ''2025-03-01T00:00:00Z''
        (days_left 864000 0)
      = (Exit 1 (''WARNING - Domain example.com will expire in 10 days (2025-03-01T00:00:00Z).''
                 @ [LF]) :: unit outcome)
   \<and> days_left 1728000 0 = 20
   \<and> report \<lparr>domain = ''example.com'', warning = 30, critical = 10\<rparr> ''2025-03-01T00:00:00Z''
        (days_left 1728000 0)
      = (Exit 1 (''WARNING - Domain example.com will expire in 20 days (2025-03-01T00:00:00Z).''
                 @ [LF]) :: unit outcome)
   \<and> days_left 2592000 0 = 30
   \<and> report \<lparr>domain = ''example.com'', warning = 30, critical = 10\<rparr> ''2025-03-01T00:00:00Z''
        (days_left 2592000 0)
      = (Exit 0 (''OK - Domain example.com will expire in 30 days (2025-03-01T00:00:00Z).''
                 @ [LF]) :: unit outcome)"
proof -
  have v: "days_left 0 432000 = - 5" "days_left 432000 0 = 5" "days_left 864000 0 = 10"
    "days_left 1728000 0 = 20" "days_left 2592000 0 = 30"
    by (simp_all add: days_left_def)
  note inst = report_decision_order
    [where a = "\<lparr>domain = ''example.com'', warning = 30, critical = 10\<rparr>"
       and d = "''2025-03-01T00:00:00Z''"]
  from v inst [of 0 432000] inst [of 432000 0] inst [of 864000 0] inst [of 1728000 0]
    inst [of 2592000 0]
  show ?thesis by (simp add: str_int_5 str_int_10 str_int_20 str_int_30)
qed

text \<open>With warning 30 and critical 40, exactly 30 days left are CRITICAL, not OK.\<close>

theorem report_boundary_counterexample:
  "days_left 2592000 0 = warning \<lparr>domain = ''example.com'', warning = 30, critical = 40\<rparr>
   \<and> report \<lparr>domain = ''example.com'', warning = 30, critical = 40\<rparr> ''2025-03-01T00:00:00Z''
        (days_left 2592000 0)
      = (Exit 2 (''CRITICAL - Domain example.com will expire in 30 days (2025-03-01T00:00:00Z).''
                 @ [LF]) :: unit outcome)"
  by (simp add: days_left_def report_def die_def STATE_CRITICAL_def str_int_30)

text \<open>
  C10. Whenever the days left are negative, the message is the CRITICAL ``expired N days
  ago'' one with \<open>N\<close> the negated days left, and \<open>N\<close> is at least 1; no input makes the
  program print ``expired 0 days ago'' as the count for its domain and date.
\<close>

theorem expired_count_positive:
  "(days_left e n < 0 \<longrightarrow>
      report a d (days_left e n) =
        (die STATE_CRITICAL (''CRITICAL - Domain '' @ domain a @ '' expired ''
           @ str_int (- days_left e n) @ '' days ago ('' @ d @ '').'') :: unit outcome)
      \<and> 1 \<le> - days_left e n \<and> str_int (- days_left e n) \<noteq> ''0'')
   \<and> (\<forall>st. report a d (days_left e n) \<noteq>
         (Exit st (''CRITICAL - Domain '' @ domain a @ '' expired 0 days ago ('' @ d @ '').''
                   @ [LF]) :: unit outcome))"
proof -
  have neg: "report a d dl =
        (die STATE_CRITICAL (''CRITICAL - Domain '' @ domain a @ '' expired ''
           @ str_int (- dl) @ '' days ago ('' @ d @ '').'') :: unit outcome)
      \<and> 1 \<le> - dl \<and> str_int (- dl) \<noteq> ''0''" if "dl < 0" for dl
    using that by (simp add: report_def str_int_zero_iff)
  have never: "report a d dl \<noteq>
         (Exit st (''CRITICAL - Domain '' @ domain a @ '' expired 0 days ago ('' @ d @ '').''
                   @ [LF]) :: unit outcome)" for dl st
  proof (cases "dl < 0")
    case True
    then have "str_int (- dl) \<noteq> ''0''" by (simp add: str_int_zero_iff)
    then have "str_int (- dl) @ ('' days ago ('' @ d @ '').'')
                 \<noteq> ''0'' @ ('' days ago ('' @ d @ '').'')"
      by (simp only: append_same_eq not_False_eq_True)
    with True show ?thesis by (simp add: report_def die_def)
  next
    case False
    then show ?thesis by (simp add: report_def die_def)
  qed
  from neg never show ?thesis by blast
qed

text \<open>One second past expiry: day \<open>-1\<close>, reported as expired 1 days ago.\<close>

theorem expired_count_positive_witness:
  "days_left 0 1 < 0
   \<and> report \<lparr>domain = ''example.com'', warning = 30, critical = 10\<rparr> ''2025-03-01T00:00:00Z''
        (days_left 0 1)
      = (Exit 2 (''CRITICAL - Domain example.com expired 1 days ago (2025-03-01T00:00:00Z).''
                 @ [LF]) :: unit outcome)
   \<and> (1::int) \<le> - days_left 0 1"
proof -
  have a: "days_left 0 1 = - 1" by (simp add: days_left_def)
  from a expired_count_positive
    [of 0 1 "\<lparr>domain = ''example.com'', warning = 30, critical = 10\<rparr>"
       "''2025-03-01T00:00:00Z''"]
  show ?thesis by (simp add: str_int_1 die_def STATE_CRITICAL_def)
qed

subsection \<open>Cache store and lookup\<close>

lemma universal_newlines_no_CR: "CR \<notin> set s \<Longrightarrow> universal_newlines s = s"
  by (induction s rule: universal_newlines.induct) auto

lemma is_space_LF: "is_space LF"
  by (simp add: is_space_def whitespace_def LF_def)

lemma is_space_CR: "is_space CR"
  by (simp add: is_space_def whitespace_def CR_def)

lemma universal_newlines_space:
  "\<forall>c\<in>set s. is_space c \<Longrightarrow> \<forall>c\<in>set (universal_newlines s). is_space c"
  by (induction s rule: universal_newlines.induct) (auto simp: is_space_LF)

lemma strip_all_space:
  assumes "\<forall>c\<in>set s. is_space c"
  shows "strip s = []"
proof -
  from assms have d: "dropWhile is_space s = []" by (simp add: dropWhile_eq_Nil_conv)
  show ?thesis unfolding strip_def d by simp
qed

lemma strip_blank_file: "\<forall>c\<in>set s. is_space c \<Longrightarrow> strip (universal_newlines s) = []"
  by (rule strip_all_space) (rule universal_newlines_space)

lemma strip_unchanged:
  assumes "s = [] \<or> (\<not> is_space (hd s) \<and> \<not> is_space (last s))"
  shows "strip s = s"
proof (cases s)
  case Nil
  then show ?thesis by (simp add: strip_def)
next
  case (Cons c cs)
  with assms have h: "\<not> is_space c" and l: "\<not> is_space (last s)" by auto
  from h Cons have "dropWhile is_space s = s" by simp
  moreover have "dropWhile is_space (rev s) = rev s"
  proof -
    from Cons obtain a as where r: "rev s = a # as" by (cases "rev s") auto
    then have "a = hd (rev s)" by simp
    also from Cons have "\<dots> = last s" by (simp add: hd_rev)
    finally have "\<not> is_space a" using l by simp
    with r show ?thesis by simp
  qed
  ultimately show ?thesis by (simp add: strip_def)
qed

lemma save_str:
  "open_error env (get_cache_file d) = None \<Longrightarrow>
   save_to_cache env fs d (PyStr ts)
     = (fs(get_cache_file d \<mapsto> \<lparr>mtime = clock_write env, content = Inr ts\<rparr>), None)"
  by (simp add: save_to_cache_def)

lemma save_None_str:
  "save_to_cache env fs d v = (fs', None) \<Longrightarrow> \<exists>s. v = PyStr s"
  by (cases v) (auto simp: save_to_cache_def Let_def split: option.splits)

lemma load_fresh:
  "fs (get_cache_file d) = Some f \<Longrightarrow> clock_load env - mtime f < CACHE_AGE \<Longrightarrow>
   content f = Inr contents \<Longrightarrow>
   load_cached_data env fs d = Inr (PyStr (strip (universal_newlines contents)))"
  by (simp add: load_cached_data_def)

lemma load_unreadable:
  "fs (get_cache_file d) = Some f \<Longrightarrow> clock_load env - mtime f < CACHE_AGE \<Longrightarrow>
   content f = Inl e \<Longrightarrow> load_cached_data env fs d = Inl e"
  by (simp add: load_cached_data_def)



lemma load_truthy:
  "load_cached_data env fs d = Inr v \<Longrightarrow> truthy v \<Longrightarrow> \<exists>s. v = PyStr s \<and> s \<noteq> []"
  by (auto simp: load_cached_data_def Let_def split: option.splits if_splits sum.splits)


lemma gde_raise:
  "load_cached_data env (files w) d = Inl e \<Longrightarrow> get_domain_expiration env w d = (Raise e, w)"
  by (simp add: get_domain_expiration_def)

lemma gde_hit:
  "load_cached_data env (files w) d = Inr v \<Longrightarrow> truthy v \<Longrightarrow>
   get_domain_expiration env w d = (Return v, w)"
  by (simp add: get_domain_expiration_def)

lemma gde_miss:
  assumes "load_cached_data env (files w) d = Inr cached" and "\<not> truthy cached"
    and "fetch_expiration env (files w) d (''https://rdap.org/domain/'' @ d) = (r, fs')"
  shows "get_domain_expiration env w d =
     ((case r of
         Raise e \<Rightarrow> Exit 3 (''UNKNOWN - Error fetching RDAP data: '' @ exc_text e @ [LF])
       | _ \<Rightarrow> r),
      \<lparr>files = fs', requests_sent = requests_sent w @ [''https://rdap.org/domain/'' @ d]\<rparr>)"
  using assms
  by (cases r) (simp_all add: get_domain_expiration_def Let_def die_def STATE_UNKNOWN_def)

lemma gde_miss_requests:
  assumes "load_cached_data env (files w) d = Inr cached" and "\<not> truthy cached"
  shows "requests_sent (snd (get_domain_expiration env w d))
     = requests_sent w @ [''https://rdap.org/domain/'' @ d]"
proof -
  obtain r fs' where
    "fetch_expiration env (files w) d (''https://rdap.org/domain/'' @ d) = (r, fs')"
    by (cases "fetch_expiration env (files w) d (''https://rdap.org/domain/'' @ d)")
  from gde_miss [OF assms this] show ?thesis by simp
qed

lemma events_loop_return:
  "events_loop env fs d items = (Return v, fs') \<Longrightarrow> \<exists>s. v = PyStr s \<and> s \<noteq> []"
proof (induction items)
  case Nil
  then show ?case by (simp add: die_def)
next
  case (Cons event events)
  then show ?case
    by (auto split: sum.splits if_splits prod.splits option.splits dest: save_None_str)
qed

lemma fetch_return:
  "fetch_expiration env fs d url = (Return v, fs') \<Longrightarrow> \<exists>s. v = PyStr s \<and> s \<noteq> []"
  by (auto simp: fetch_expiration_def split: sum.splits dest: events_loop_return)

lemma gde_return:
  assumes "get_domain_expiration env w d = (Return v, w')"
  shows "\<exists>s. v = PyStr s \<and> s \<noteq> []"
proof (cases "load_cached_data env (files w) d")
  case (Inl e)
  with assms show ?thesis by (simp add: gde_raise)
next
  case (Inr cached)
  show ?thesis
  proof (cases "truthy cached")
    case True
    with assms Inr have "v = cached" by (auto simp: gde_hit)
    with True Inr show ?thesis by (auto dest: load_truthy)
  next
    case False
    obtain r fs' where
      f: "fetch_expiration env (files w) d (''https://rdap.org/domain/'' @ d) = (r, fs')"
      by (cases "fetch_expiration env (files w) d (''https://rdap.org/domain/'' @ d)")
    from gde_miss [OF Inr False f] assms have "r = Return v" by (cases r) auto
    with f show ?thesis by (auto dest: fetch_return)
  qed
qed

lemma events_loop_find:
  assumes "\<forall>e\<in>set (takeWhile (\<lambda>e. \<not> has_expiration_date e) items). is_dict e"
  shows "events_loop env fs d items =
     (case find has_expiration_date items of
        None \<Rightarrow> (die STATE_UNKNOWN (''UNKNOWN - Expiry date not found for '' @ d), fs)
      | Some ev \<Rightarrow>
          (case save_to_cache env fs d (event_date ev) of
             (fs', Some e) \<Rightarrow> (Raise e, fs')
           | (fs', None) \<Rightarrow> (Return (event_date ev), fs')))"
  using assms
proof (induction items)
  case Nil
  then show ?case by simp
next
  case (Cons event events)
  show ?case
  proof (cases "has_expiration_date event")
    case True
    then show ?thesis
      by (cases event) (auto simp: has_expiration_date_def event_date_def split: option.splits)
  next
    case False
    with Cons.prems have d: "is_dict event"
      and rest: "\<forall>e\<in>set (takeWhile (\<lambda>e. \<not> has_expiration_date e) events). is_dict e"
      by auto
    from d obtain kvs where ev: "event = PyDict kvs" by (cases event) (auto simp: is_dict_def)
    from False ev have "events_loop env fs d (event # events) = events_loop env fs d events"
      by (auto simp: has_expiration_date_def event_date_def split: option.splits)
    with False Cons.IH [OF rest] show ?thesis by simp
  qed
qed

lemma events_loop_exit:
  "events_loop env fs d items = (Exit c out, fs') \<Longrightarrow>
   c = 3 \<and> out = ''UNKNOWN - Expiry date not found for '' @ d @ [LF]"
proof (induction items)
  case Nil
  then show ?case by (simp add: die_def STATE_UNKNOWN_def)
next
  case (Cons event events)
  then show ?case
    by (auto split: sum.splits if_splits prod.splits option.splits)
qed

lemma fetch_exit:
  "fetch_expiration env fs d url = (Exit c out, fs') \<Longrightarrow>
   c = 3 \<and> out = ''UNKNOWN - Expiry date not found for '' @ d @ [LF]"
  by (auto simp: fetch_expiration_def split: sum.splits dest: events_loop_exit)

lemma fetch_request_error:
  "rdap_service env url = Inl msg \<Longrightarrow>
   fetch_expiration env fs d url = (Raise (RequestError msg), fs)"
  by (simp add: fetch_expiration_def)

text \<open>On a miss the outcome is the one the answer of the lookup service decides.\<close>

lemma gde_miss_error:
  assumes "load_cached_data env (files w) d = Inr cached" and "\<not> truthy cached"
    and "rdap_service env (''https://rdap.org/domain/'' @ d) = Inl msg"
  shows "get_domain_expiration env w d
           = (Exit 3 (''UNKNOWN - Error fetching RDAP data: '' @ msg @ [LF]),
              \<lparr>files = files w,
               requests_sent = requests_sent w @ [''https://rdap.org/domain/'' @ d]\<rparr>)"
  using gde_miss [OF assms(1,2) fetch_request_error [OF assms(3)]] by simp

lemma gde_miss_events:
  assumes "load_cached_data env (files w) d = Inr cached" and "\<not> truthy cached"
    and resp: "rdap_service env (''https://rdap.org/domain/'' @ d) = Inr data"
    and evs: "py_get data ''events'' (PyList []) = Inr (PyList items)"
    and dicts: "\<forall>e\<in>set (takeWhile (\<lambda>e. \<not> has_expiration_date e) items). is_dict e"
  shows "(find has_expiration_date items = None \<longrightarrow>
            get_domain_expiration env w d
              = (Exit 3 (''UNKNOWN - Expiry date not found for '' @ d @ [LF]),
                 \<lparr>files = files w,
                  requests_sent = requests_sent w @ [''https://rdap.org/domain/'' @ d]\<rparr>))
         \<and> (find has_expiration_date items = Some ev \<and> event_date ev = PyStr s
              \<and> open_error env (get_cache_file d) = None \<longrightarrow>
            get_domain_expiration env w d
              = (Return (PyStr s),
                 \<lparr>files = (files w)(get_cache_file d \<mapsto>
                            \<lparr>mtime = clock_write env, content = Inr s\<rparr>),
                  requests_sent = requests_sent w @ [''https://rdap.org/domain/'' @ d]\<rparr>))"
proof -
  have f: "fetch_expiration env (files w) d (''https://rdap.org/domain/'' @ d)
             = events_loop env (files w) d items"
    using resp evs by (simp add: fetch_expiration_def)
  note l = events_loop_find [OF dicts, of env "files w" d]
  show ?thesis
  proof (intro conjI impI)
    assume n: "find has_expiration_date items = None"
    with f l have "fetch_expiration env (files w) d (''https://rdap.org/domain/'' @ d)
        = (Exit 3 (''UNKNOWN - Expiry date not found for '' @ d @ [LF]), files w)"
      by (simp add: die_def STATE_UNKNOWN_def)
    from gde_miss [OF assms(1,2) this]
    show "get_domain_expiration env w d
              = (Exit 3 (''UNKNOWN - Expiry date not found for '' @ d @ [LF]),
                 \<lparr>files = files w,
                  requests_sent = requests_sent w @ [''https://rdap.org/domain/'' @ d]\<rparr>)"
      by simp
  next
    assume h: "find has_expiration_date items = Some ev \<and> event_date ev = PyStr s
              \<and> open_error env (get_cache_file d) = None"
    with f l have "fetch_expiration env (files w) d (''https://rdap.org/domain/'' @ d)
        = (Return (PyStr s),
           (files w)(get_cache_file d \<mapsto> \<lparr>mtime = clock_write env, content = Inr s\<rparr>))"
      by (simp add: save_str)
    from gde_miss [OF assms(1,2) this]
    show "get_domain_expiration env w d
              = (Return (PyStr s),
                 \<lparr>files = (files w)(get_cache_file d \<mapsto>
                            \<lparr>mtime = clock_write env, content = Inr s\<rparr>),
                  requests_sent = requests_sent w @ [''https://rdap.org/domain/'' @ d]\<rparr>)"
      by simp
  qed
qed

text \<open>
  C6, as amended. For every domain whose cache file can be opened for writing and every
  timestamp string, saving the string and loading it within the freshness window returns
  the string as a text-mode read and \<^verbatim>\<open>strip()\<close> leave it: carriage returns read
  as line feeds, and white space at both ends removed. The result is exactly the string
  saved when it has no carriage return and neither starts nor ends with white space.
\<close>

theorem save_then_load:
  "open_error env (get_cache_file d) = None \<longrightarrow>
     snd (save_to_cache env fs d (PyStr ts)) = None
     \<and> fst (save_to_cache env fs d (PyStr ts)) (get_cache_file d)
         = Some \<lparr>mtime = clock_write env, content = Inr ts\<rparr>
     \<and> (clock_load env - clock_write env < CACHE_AGE \<longrightarrow>
          load_cached_data env (fst (save_to_cache env fs d (PyStr ts))) d
            = Inr (PyStr (strip (universal_newlines ts)))
          \<and> (CR \<notin> set ts \<and> (ts = [] \<or> (\<not> is_space (hd ts) \<and> \<not> is_space (last ts))) \<longrightarrow>
               load_cached_data env (fst (save_to_cache env fs d (PyStr ts))) d
                 = Inr (PyStr ts)))"
proof (intro impI conjI)
  assume ok: "open_error env (get_cache_file d) = None"
  note sv = save_str [OF ok, of fs ts]
  show "snd (save_to_cache env fs d (PyStr ts)) = None" by (simp add: sv)
  show "fst (save_to_cache env fs d (PyStr ts)) (get_cache_file d)
          = Some \<lparr>mtime = clock_write env, content = Inr ts\<rparr>" by (simp add: sv)
  assume fresh: "clock_load env - clock_write env < CACHE_AGE"
  then show ld: "load_cached_data env (fst (save_to_cache env fs d (PyStr ts))) d
                   = Inr (PyStr (strip (universal_newlines ts)))"
    by (simp add: sv load_cached_data_def)
  assume "CR \<notin> set ts \<and> (ts = [] \<or> (\<not> is_space (hd ts) \<and> \<not> is_space (last ts)))"
  then have "strip (universal_newlines ts) = ts"
    by (simp add: universal_newlines_no_CR strip_unchanged)
  with ld show "load_cached_data env (fst (save_to_cache env fs d (PyStr ts))) d
                  = Inr (PyStr ts)"
    by simp
qed

text \<open>A timestamp saved and loaded at the same clock reading comes back unchanged.\<close>

theorem save_then_load_witness:
  "open_error sample_env (get_cache_file ''example.com'') = None
   \<and> clock_load sample_env - clock_write sample_env < CACHE_AGE
   \<and> load_cached_data sample_env
        (fst (save_to_cache sample_env Map.empty ''example.com'' (PyStr ''2030-01-01T00:00:00Z'')))
        ''example.com''
      = Inr (PyStr ''2030-01-01T00:00:00Z'')"
  using save_then_load [of sample_env "''example.com''" Map.empty "''2030-01-01T00:00:00Z''"]
  by (simp add: sample_env_def CACHE_AGE_def CR_def is_space_def whitespace_def strip_def)

text \<open>A timestamp saved with a trailing line feed comes back without it.\<close>

theorem save_then_load_counterexample:
  "open_error sample_env (get_cache_file ''example.com'') = None
   \<and> clock_load sample_env - clock_write sample_env < CACHE_AGE
   \<and> load_cached_data sample_env
        (fst (save_to_cache sample_env Map.empty ''example.com''
                (PyStr (''2030-01-01T00:00:00Z'' @ [LF]))))
        ''example.com''
      = Inr (PyStr ''2030-01-01T00:00:00Z'')
   \<and> PyStr ''2030-01-01T00:00:00Z'' \<noteq> PyStr (''2030-01-01T00:00:00Z'' @ [LF])"
  by (simp add: sample_env_def CACHE_AGE_def save_to_cache_def load_cached_data_def
      strip_def is_space_def whitespace_def LF_def CR_def)

subsection \<open>Selecting the expiration event\<close>

text \<open>
  C2, as amended. On a cache miss with a response whose \<^verbatim>\<open>events\<close> is a list of event
  objects, \<^verbatim>\<open>get_domain_expiration\<close> selects the first entry whose \<^verbatim>\<open>eventAction\<close>
  equals \<^verbatim>\<open>"expiration"\<close> and whose \<^verbatim>\<open>eventDate\<close> is not empty: an expiration entry
  with a missing or empty date is passed over and the scan goes on. When the selected
  date is a string and the cache file can be written, it is saved to the cache and
  returned, and the entries after it are ignored. When no entry is selected, the outcome
  is UNKNOWN with a message naming the domain.
\<close>

theorem expiration_event_selection:
  assumes miss: "load_cached_data env (files w) d = Inr cached" "\<not> truthy cached"
    and resp: "rdap_service env (''https://rdap.org/domain/'' @ d) = Inr data"
    and evs: "py_get data ''events'' (PyList []) = Inr (PyList items)"
    and dicts: "\<forall>e\<in>set (takeWhile (\<lambda>e. \<not> has_expiration_date e) items). is_dict e"
  shows "(find has_expiration_date items = None \<longrightarrow>
            get_domain_expiration env w d
              = (Exit 3 (''UNKNOWN - Expiry date not found for '' @ d @ [LF]),
                 \<lparr>files = files w,
                  requests_sent = requests_sent w @ [''https://rdap.org/domain/'' @ d]\<rparr>))
         \<and> (find has_expiration_date items = Some ev \<and> event_date ev = PyStr s
              \<and> open_error env (get_cache_file d) = None \<longrightarrow>
            get_domain_expiration env w d
              = (Return (PyStr s),
                 \<lparr>files = (files w)(get_cache_file d \<mapsto>
                            \<lparr>mtime = clock_write env, content = Inr s\<rparr>),
                  requests_sent = requests_sent w @ [''https://rdap.org/domain/'' @ d]\<rparr>))"
  by (rule gde_miss_events [OF miss resp evs dicts])

lemma empty_world_miss:
  "load_cached_data env (files empty_world) d = Inr PyNone"
  by (simp add: empty_world_def load_cached_data_def)

lemma answering_service:
  "rdap_service (answering evs) url
      = Inr (PyDict [(''objectClassName'', PyStr ''domain''), (''events'', PyList evs)])"
  by (simp add: answering_def)

lemma answering_events:
  "py_get (PyDict [(''objectClassName'', PyStr ''domain''), (''events'', PyList evs)])
      ''events'' (PyList []) = Inr (PyList evs)"
  by simp

lemma sample_events_find:
  "find has_expiration_date sample_events
     = Some (PyDict [(''eventAction'', PyStr ''expiration''),
                     (''eventDate'', PyStr ''2030-08-13T04:00:00Z'')])"
  "find has_expiration_date (take 2 sample_events) = None"
  "\<forall>e\<in>set (takeWhile (\<lambda>e. \<not> has_expiration_date e) sample_events). is_dict e"
  "\<forall>e\<in>set (takeWhile (\<lambda>e. \<not> has_expiration_date e) (take 2 sample_events)). is_dict e"
  "event_date (PyDict [(''eventAction'', PyStr ''expiration''),
                       (''eventDate'', PyStr ''2030-08-13T04:00:00Z'')])
     = PyStr ''2030-08-13T04:00:00Z''"
  by (simp_all add: sample_events_def has_expiration_date_def event_date_def is_dict_def)

lemma answering_open: "open_error (answering evs) path = None"
  by (simp add: answering_def sample_env_def)

text \<open>Of the sample events the third is selected; the first two alone select none.\<close>

theorem expiration_event_selection_witness:
  "find has_expiration_date sample_events
     = Some (PyDict [(''eventAction'', PyStr ''expiration''),
                     (''eventDate'', PyStr ''2030-08-13T04:00:00Z'')])
   \<and> get_domain_expiration (answering sample_events) empty_world ''example.com''
     = (Return (PyStr ''2030-08-13T04:00:00Z''),
        \<lparr>files = (files empty_world)(get_cache_file ''example.com'' \<mapsto>
                    \<lparr>mtime = clock_write (answering sample_events),
                     content = Inr ''2030-08-13T04:00:00Z''\<rparr>),
         requests_sent = requests_sent empty_world @ [''https://rdap.org/domain/'' @ ''example.com'']\<rparr>)
   \<and> find has_expiration_date (take 2 sample_events) = None
   \<and> get_domain_expiration (answering (take 2 sample_events)) empty_world ''example.com''
     = (Exit 3 (''UNKNOWN - Expiry date not found for '' @ ''example.com'' @ [LF]),
        \<lparr>files = files empty_world,
         requests_sent = requests_sent empty_world @ [''https://rdap.org/domain/'' @ ''example.com'']\<rparr>)"
proof -
  have t: "\<not> truthy PyNone" by simp
  from expiration_event_selection
      [OF empty_world_miss t answering_service answering_events sample_events_find(3),
       where s = "''2030-08-13T04:00:00Z''"]
    sample_events_find(1,5) answering_open
    expiration_event_selection
      [OF empty_world_miss t answering_service answering_events sample_events_find(4)]
    sample_events_find(2)
  show ?thesis by simp
qed

text \<open>The first expiration entry has no date, and still the outcome is not UNKNOWN: the
  date of the next one is returned.\<close>

theorem undated_expiration_counterexample:
  "py_get (PyDict [(''eventAction'', PyStr ''expiration'')]) ''eventAction'' PyNone
     = Inr (PyStr ''expiration'')
   \<and> py_get (PyDict [(''eventAction'', PyStr ''expiration'')]) ''eventDate'' PyNone = Inr PyNone
   \<and> fst (get_domain_expiration (answering (drop 1 sample_events)) empty_world ''example.com'')
     = Return (PyStr ''2030-08-13T04:00:00Z'')"
  by (simp add: answering_def sample_env_def sample_events_def empty_world_def
      get_domain_expiration_def load_cached_data_def fetch_expiration_def save_to_cache_def
      Let_def)

subsection \<open>When the lookup service is asked\<close>

text \<open>On a miss, one request is sent and the answer of the service decides the outcome.\<close>

lemma gde_miss_asked:
  assumes "load_cached_data env (files w) d = Inr cached" and "\<not> truthy cached"
  shows "requests_sent (snd (get_domain_expiration env w d))
           = requests_sent w @ [''https://rdap.org/domain/'' @ d]
         \<and> (rdap_service env (''https://rdap.org/domain/'' @ d) = Inl msg \<longrightarrow>
              fst (get_domain_expiration env w d)
                = Exit 3 (''UNKNOWN - Error fetching RDAP data: '' @ msg @ [LF]))
         \<and> (rdap_service env (''https://rdap.org/domain/'' @ d) = Inr data
              \<and> py_get data ''events'' (PyList []) = Inr (PyList items)
              \<and> (\<forall>e\<in>set (takeWhile (\<lambda>e. \<not> has_expiration_date e) items). is_dict e) \<longrightarrow>
                (find has_expiration_date items = None \<longrightarrow>
                   fst (get_domain_expiration env w d)
                     = Exit 3 (''UNKNOWN - Expiry date not found for '' @ d @ [LF]))
                \<and> (find has_expiration_date items = Some ev \<and> event_date ev = PyStr s
                     \<and> open_error env (get_cache_file d) = None \<longrightarrow>
                   fst (get_domain_expiration env w d) = Return (PyStr s)))"
proof (intro conjI impI)
  show "requests_sent (snd (get_domain_expiration env w d))
           = requests_sent w @ [''https://rdap.org/domain/'' @ d]"
    by (rule gde_miss_requests [OF assms])
next
  assume "rdap_service env (''https://rdap.org/domain/'' @ d) = Inl msg"
  from gde_miss_error [OF assms this]
  show "fst (get_domain_expiration env w d)
          = Exit 3 (''UNKNOWN - Error fetching RDAP data: '' @ msg @ [LF])"
    by simp
next
  assume h: "rdap_service env (''https://rdap.org/domain/'' @ d) = Inr data
              \<and> py_get data ''events'' (PyList []) = Inr (PyList items)
              \<and> (\<forall>e\<in>set (takeWhile (\<lambda>e. \<not> has_expiration_date e) items). is_dict e)"
  then have r: "rdap_service env (''https://rdap.org/domain/'' @ d) = Inr data"
    and e: "py_get data ''events'' (PyList []) = Inr (PyList items)"
    and k: "\<forall>e\<in>set (takeWhile (\<lambda>e. \<not> has_expiration_date e) items). is_dict e"
    by simp_all
  note g = gde_miss_events [OF assms r e k, of ev s]
  {
    assume "find has_expiration_date items = None"
    with g show "fst (get_domain_expiration env w d)
                   = Exit 3 (''UNKNOWN - Expiry date not found for '' @ d @ [LF])"
      by simp
  }
  {
    assume "find has_expiration_date items = Some ev \<and> event_date ev = PyStr s
              \<and> open_error env (get_cache_file d) = None"
    with g show "fst (get_domain_expiration env w d) = Return (PyStr s)"
      by simp
  }
qed



lemma sample_stale:
  "files (cache_only ''example.com'' 1739971200 ''2030-01-01T00:00:00Z'')
      (get_cache_file ''example.com'')
     = Some \<lparr>mtime = 1739971200, content = Inr ''2030-01-01T00:00:00Z''\<rparr>"
  "28800 \<le> clock_load sample_env - mtime \<lparr>mtime = 1739971200,
      content = Inr ''2030-01-01T00:00:00Z''\<rparr>"
  "rdap_service sample_env url = Inl ''Read timed out.''"
  by (simp_all add: cache_only_def sample_env_def)



text \<open>
  C9. A fresh cache file whose content is empty or white space only counts as a miss: the
  request is sent, and the answer of the lookup service decides the outcome as on any
  miss. Whatever \<^verbatim>\<open>get_domain_expiration\<close> returns is a non-empty string.
\<close>

theorem blank_cache_is_miss:
  "(files w (get_cache_file d) = Some f \<and> clock_load env - mtime f < 28800
      \<and> content f = Inr contents \<and> (\<forall>c\<in>set contents. is_space c) \<longrightarrow>
        requests_sent (snd (get_domain_expiration env w d))
          = requests_sent w @ [''https://rdap.org/domain/'' @ d]
        \<and> (rdap_service env (''https://rdap.org/domain/'' @ d) = Inl msg \<longrightarrow>
              fst (get_domain_expiration env w d)
                = Exit 3 (''UNKNOWN - Error fetching RDAP data: '' @ msg @ [LF]))
        \<and> (rdap_service env (''https://rdap.org/domain/'' @ d) = Inr data
              \<and> py_get data ''events'' (PyList []) = Inr (PyList items)
              \<and> (\<forall>e\<in>set (takeWhile (\<lambda>e. \<not> has_expiration_date e) items). is_dict e) \<longrightarrow>
                (find has_expiration_date items = None \<longrightarrow>
                   fst (get_domain_expiration env w d)
                     = Exit 3 (''UNKNOWN - Expiry date not found for '' @ d @ [LF]))
                \<and> (find has_expiration_date items = Some ev \<and> event_date ev = PyStr s
                     \<and> open_error env (get_cache_file d) = None \<longrightarrow>
                   fst (get_domain_expiration env w d) = Return (PyStr s))))
   \<and> (get_domain_expiration env w d = (Return v, w') \<longrightarrow> (\<exists>s. v = PyStr s \<and> s \<noteq> []))"
proof -
  have miss: "load_cached_data env (files w) d = Inr (PyStr [])"
    if "files w (get_cache_file d) = Some f \<and> clock_load env - mtime f < 28800
      \<and> content f = Inr contents \<and> (\<forall>c\<in>set contents. is_space c)"
    using that load_fresh [of "files w" d f env contents]
    by (simp add: CACHE_AGE_def strip_blank_file)
  have t: "\<not> truthy (PyStr [])" by simp
  have r: "\<exists>s. v = PyStr s \<and> s \<noteq> []" if "get_domain_expiration env w d = (Return v, w')"
    using that by (rule gde_return)
  show ?thesis
    using gde_miss_asked [OF miss t, of msg data items ev s] r by blast
qed

lemma sample_blank:
  "files (cache_only ''example.com'' 1739990000 ('' '' @ [LF])) (get_cache_file ''example.com'')
     = Some \<lparr>mtime = 1739990000, content = Inr ('' '' @ [LF])\<rparr>"
  "clock_load env - mtime \<lparr>mtime = 1739990000, content = Inr ('' '' @ [LF])\<rparr>
     = clock_load env - 1739990000"
  "\<forall>c\<in>set ('' '' @ [LF]). is_space c"
  by (simp_all add: cache_only_def is_space_def whitespace_def LF_def)

lemma sample_clock: "clock_load sample_env = 1740000000" "clock_load (answering evs) = 1740000000"
  by (simp_all add: sample_env_def answering_def)

lemma cached_timestamp:
  "get_domain_expiration sample_env
        (cache_only ''example.com'' 1739990000 ''2030-01-01T00:00:00Z'') ''example.com''
     = (Return (PyStr ''2030-01-01T00:00:00Z''),
        cache_only ''example.com'' 1739990000 ''2030-01-01T00:00:00Z'')"
  by (simp add: cache_only_def sample_env_def get_domain_expiration_def load_cached_data_def
      strip_def CACHE_AGE_def Let_def is_space_def whitespace_def CR_def LF_def)

text \<open>A fresh cache file holding a blank and a line feed leads to a request: where the
  service times out the outcome is UNKNOWN with the text of the error, and where it
  answers with the sample events the date of the third event is returned. A fresh file
  holding a timestamp is returned.\<close>

theorem blank_cache_is_miss_witness:
  "is_space (CHR '' '') \<and> is_space LF
   \<and> requests_sent (snd (get_domain_expiration sample_env
        (cache_only ''example.com'' 1739990000 ('' '' @ [LF])) ''example.com''))
     = [''https://rdap.org/domain/example.com'']
   \<and> fst (get_domain_expiration sample_env
        (cache_only ''example.com'' 1739990000 ('' '' @ [LF])) ''example.com'')
     = Exit 3 (''UNKNOWN - Error fetching RDAP data: '' @ ''Read timed out.'' @ [LF])
   \<and> fst (get_domain_expiration (answering sample_events)
        (cache_only ''example.com'' 1739990000 ('' '' @ [LF])) ''example.com'')
     = Return (PyStr ''2030-08-13T04:00:00Z'')
   \<and> get_domain_expiration sample_env
        (cache_only ''example.com'' 1739990000 ''2030-01-01T00:00:00Z'') ''example.com''
     = (Return (PyStr ''2030-01-01T00:00:00Z''),
        cache_only ''example.com'' 1739990000 ''2030-01-01T00:00:00Z'')
   \<and> ''2030-01-01T00:00:00Z'' \<noteq> []"
proof -
  have sp: "is_space (CHR '' '') \<and> is_space LF"
    by (simp add: is_space_def whitespace_def LF_def)
  note a = blank_cache_is_miss
    [where w = "cache_only ''example.com'' 1739990000 ('' '' @ [LF])"
       and d = "''example.com''" and env = sample_env
       and f = "\<lparr>mtime = 1739990000, content = Inr ('' '' @ [LF])\<rparr>"
       and contents = "'' '' @ [LF]" and msg = "''Read timed out.''"]
  note b = blank_cache_is_miss
    [where w = "cache_only ''example.com'' 1739990000 ('' '' @ [LF])"
       and d = "''example.com''" and env = "answering sample_events"
       and f = "\<lparr>mtime = 1739990000, content = Inr ('' '' @ [LF])\<rparr>"
       and contents = "'' '' @ [LF]"
       and data = "PyDict [(''objectClassName'', PyStr ''domain''),
                           (''events'', PyList sample_events)]"
       and items = sample_events
       and ev = "PyDict [(''eventAction'', PyStr ''expiration''),
                         (''eventDate'', PyStr ''2030-08-13T04:00:00Z'')]"
       and s = "''2030-08-13T04:00:00Z''"]
  note c = blank_cache_is_miss
    [where w = "cache_only ''example.com'' 1739990000 ''2030-01-01T00:00:00Z''"
       and d = "''example.com''" and env = sample_env
       and v = "PyStr ''2030-01-01T00:00:00Z''"
       and w' = "cache_only ''example.com'' 1739990000 ''2030-01-01T00:00:00Z''"]
  from a sample_blank sample_clock sample_stale(3) have 1:
    "requests_sent (snd (get_domain_expiration sample_env
        (cache_only ''example.com'' 1739990000 ('' '' @ [LF])) ''example.com''))
     = [''https://rdap.org/domain/example.com'']
     \<and> fst (get_domain_expiration sample_env
        (cache_only ''example.com'' 1739990000 ('' '' @ [LF])) ''example.com'')
     = Exit 3 (''UNKNOWN - Error fetching RDAP data: '' @ ''Read timed out.'' @ [LF])"
    by (simp add: cache_only_def)
  from b sample_blank sample_clock answering_service answering_events sample_events_find
    answering_open
  have 2: "fst (get_domain_expiration (answering sample_events)
        (cache_only ''example.com'' 1739990000 ('' '' @ [LF])) ''example.com'')
     = Return (PyStr ''2030-08-13T04:00:00Z'')"
    by simp
  from c cached_timestamp have 3: "''2030-01-01T00:00:00Z'' \<noteq> []" by simp
  from sp 1 2 3 cached_timestamp show ?thesis by blast
qed

subsection \<open>Every outcome of \<^verbatim>\<open>main\<close>\<close>

lemma gde_shape:
  assumes "load_cached_data env (files w) d = Inr cached"
  shows "(\<exists>s w'. get_domain_expiration env w d = (Return (PyStr s), w') \<and> s \<noteq> [])
   \<or> (\<exists>w'. get_domain_expiration env w d
              = (Exit 3 (''UNKNOWN - Expiry date not found for '' @ d @ [LF]), w'))
   \<or> (\<exists>e fs' w'. fetch_expiration env (files w) d (''https://rdap.org/domain/'' @ d) = (Raise e, fs')
         \<and> get_domain_expiration env w d
              = (Exit 3 (''UNKNOWN - Error fetching RDAP data: '' @ exc_text e @ [LF]), w'))"
proof (cases "truthy cached")
  case True
  then show ?thesis using gde_hit [OF assms True] load_truthy [OF assms True] by auto
next
  case False
  obtain r fs' where f: "fetch_expiration env (files w) d (''https://rdap.org/domain/'' @ d) = (r, fs')"
    by (cases "fetch_expiration env (files w) d (''https://rdap.org/domain/'' @ d)")
  note g = gde_miss [OF assms False f]
  show ?thesis
  proof (cases r)
    case (Return v)
    with f obtain s where "v = PyStr s" "s \<noteq> []" by (auto dest: fetch_return)
    with g Return show ?thesis by simp
  next
    case (Raise e)
    with g f show ?thesis by simp
  next
    case (Exit c out)
    with f have "c = 3 \<and> out = ''UNKNOWN - Expiry date not found for '' @ d @ [LF]"
      by (auto dest: fetch_exit)
    with g Exit show ?thesis by simp
  qed
qed

lemma parse_shape:
  "(\<exists>t. parse_rdap_date env s = Return t)
   \<or> parse_rdap_date env s = Exit 3 (''UNKNOWN - Invalid expiration date format: '' @ s @ [LF])"
  by (simp add: parse_rdap_date_def die_def STATE_UNKNOWN_def split: option.splits)

lemma main_after_return:
  assumes "get_domain_expiration env w (domain a) = (Return (PyStr s), w')"
  shows "main env w a =
     ((case parse_rdap_date env s of
         Return exp_seconds \<Rightarrow> report a s (days_left exp_seconds (py_int (clock_main env)))
       | Raise e \<Rightarrow> Raise e
       | Exit state out \<Rightarrow> Exit state out), w')"
  using assms by (simp add: main_def Let_def split: outcome.splits)

lemma main_after_exit:
  assumes "get_domain_expiration env w (domain a) = (Exit c out, w')"
  shows "main env w a = (Exit c out, w')"
  using assms by (simp add: main_def)

lemma main_after_raise:
  assumes "load_cached_data env (files w) (domain a) = Inl e"
  shows "main env w a = (Raise e, w)"
  using gde_raise [OF assms] by (simp add: main_def)

lemma run_exit: "fst (main env w a) = Exit state out \<Longrightarrow> run env w a = (out, state)"
  by (simp add: run_def)

lemma main_shape:
  assumes "load_cached_data env (files w) (domain a) = Inr cached"
  shows "(\<exists>e fs'. fetch_expiration env (files w) (domain a) (''https://rdap.org/domain/'' @ domain a)
               = (Raise e, fs')
        \<and> fst (main env w a)
            = Exit 3 (''UNKNOWN - Error fetching RDAP data: '' @ exc_text e @ [LF]))
   \<or> fst (main env w a) = Exit 3 (''UNKNOWN - Expiry date not found for '' @ domain a @ [LF])
   \<or> (\<exists>s w'. get_domain_expiration env w (domain a) = (Return (PyStr s), w')
        \<and> (fst (main env w a)
             = Exit 3 (''UNKNOWN - Invalid expiration date format: '' @ s @ [LF])
           \<or> (\<exists>dl. fst (main env w a) = report a s dl)))"
proof -
  from gde_shape [OF assms] consider
    (ret) s w' where "get_domain_expiration env w (domain a) = (Return (PyStr s), w')"
  | (nf) w' where "get_domain_expiration env w (domain a)
              = (Exit 3 (''UNKNOWN - Expiry date not found for '' @ domain a @ [LF]), w')"
  | (err) e fs' w' where
      "fetch_expiration env (files w) (domain a) (''https://rdap.org/domain/'' @ domain a) = (Raise e, fs')"
      "get_domain_expiration env w (domain a)
              = (Exit 3 (''UNKNOWN - Error fetching RDAP data: '' @ exc_text e @ [LF]), w')"
    by blast
  then show ?thesis
  proof cases
    case ret
    note m = main_after_return [OF ret]
    from parse_shape [of env s] show ?thesis
    proof
      assume "\<exists>t. parse_rdap_date env s = Return t"
      then obtain t where "parse_rdap_date env s = Return t" ..
      with m have "fst (main env w a) = report a s (days_left t (py_int (clock_main env)))"
        by simp
      with ret show ?thesis by blast
    next
      assume "parse_rdap_date env s
                = Exit 3 (''UNKNOWN - Invalid expiration date format: '' @ s @ [LF])"
      with m have "fst (main env w a)
                = Exit 3 (''UNKNOWN - Invalid expiration date format: '' @ s @ [LF])"
        by simp
      with ret show ?thesis by blast
    qed
  next
    case nf
    from main_after_exit [OF nf] show ?thesis by simp
  next
    case err
    from main_after_exit [OF err(2)] err(1) show ?thesis by auto
  qed
qed

lemma digit_char_mem: "n < 10 \<Longrightarrow> ''0123456789'' ! n \<in> set ''0123456789''"
  by (rule nth_mem) simp

lemma str_nat_digits: "set (str_nat n) \<subseteq> set ''0123456789''"
proof (induction n rule: str_nat.induct)
  case (1 n)
  show ?case
  proof (cases "n < 10")
    case True
    then have "str_nat n = [''0123456789'' ! n]" by (subst str_nat.simps) simp
    with digit_char_mem [OF True] show ?thesis by simp
  next
    case False
    then have e: "str_nat n = str_nat (n div 10) @ [''0123456789'' ! (n mod 10)]"
      by (subst str_nat.simps) simp
    have "n mod 10 < 10" by simp
    from digit_char_mem [OF this] 1 [OF False] show ?thesis unfolding e by simp
  qed
qed

lemma str_int_no_LF: "LF \<notin> set (str_int i)"
  using str_nat_digits [of "nat i"] str_nat_digits [of "nat (- i)"]
  by (auto simp: str_int_def LF_def)

lemma report_shape:
  "\<exists>state name details.
     report a d dl = (Exit state (name @ '' - '' @ details @ [LF]) :: unit outcome)
     \<and> (name, state) \<in> set [(''OK'', 0), (''WARNING'', 1), (''CRITICAL'', 2), (''UNKNOWN'', 3)]"
proof -
  consider "dl < 0" | "0 \<le> dl" "dl < critical a" | "0 \<le> dl" "critical a \<le> dl" "dl < warning a"
    | "0 \<le> dl" "critical a \<le> dl" "warning a \<le> dl" by linarith
  then show ?thesis
  proof cases
    case 1
    then have "report a d dl = (Exit 2 (''CRITICAL'' @ '' - '' @
        (''Domain '' @ domain a @ '' expired '' @ str_int (- dl) @ '' days ago ('' @ d @ '').'')
        @ [LF]) :: unit outcome)"
      by (simp add: report_def die_def STATE_CRITICAL_def)
    then show ?thesis by (intro exI conjI) (assumption, simp)
  next
    case 2
    then have "report a d dl = (Exit 2 (''CRITICAL'' @ '' - '' @
        (''Domain '' @ domain a @ '' will expire in '' @ str_int dl @ '' days ('' @ d @ '').'')
        @ [LF]) :: unit outcome)"
      by (simp add: report_def die_def STATE_CRITICAL_def)
    then show ?thesis by (intro exI conjI) (assumption, simp)
  next
    case 3
    then have "report a d dl = (Exit 1 (''WARNING'' @ '' - '' @
        (''Domain '' @ domain a @ '' will expire in '' @ str_int dl @ '' days ('' @ d @ '').'')
        @ [LF]) :: unit outcome)"
      by (simp add: report_def die_def STATE_WARNING_def)
    then show ?thesis by (intro exI conjI) (assumption, simp)
  next
    case 4
    then have "report a d dl = (Exit 0 (''OK'' @ '' - '' @
        (''Domain '' @ domain a @ '' will expire in '' @ str_int dl @ '' days ('' @ d @ '').'')
        @ [LF]) :: unit outcome)"
      by (simp add: report_def die_def STATE_OK_def)
    then show ?thesis by (intro exI conjI) (assumption, simp)
  qed
qed

lemma report_one_line:
  assumes "LF \<notin> set (domain a)" and "LF \<notin> set d"
  shows "\<exists>state line. report a d dl = (Exit state (line @ [LF]) :: unit outcome) \<and> LF \<notin> set line"
proof -
  have n: "LF \<notin> set (str_int dl)" "LF \<notin> set (str_int (- dl))" by (rule str_int_no_LF)+
  have c: "CHR 0x0A \<notin> set ''0123456789''" by simp
  from assms n show ?thesis
    by (auto simp: report_def die_def LF_def)
qed

lemma main_status:
  assumes "load_cached_data env (files w) (domain a) = Inr cached"
  shows "\<exists>state name details.
      fst (main env w a) = Exit state (name @ '' - '' @ details @ [LF])
      \<and> (name, state) \<in> set [(''OK'', 0), (''WARNING'', 1), (''CRITICAL'', 2), (''UNKNOWN'', 3)]"
proof -
  have u: "\<exists>state name details.
      fst (main env w a) = Exit state (name @ '' - '' @ details @ [LF])
      \<and> (name, state) \<in> set [(''OK'', 0), (''WARNING'', 1), (''CRITICAL'', 2), (''UNKNOWN'', 3)]"
    if "fst (main env w a) = Exit 3 (''UNKNOWN'' @ '' - '' @ x @ [LF])" for x
    using that by (intro exI conjI) (assumption, simp)
  from main_shape [OF assms] consider
    (err) e where
      "fst (main env w a) = Exit 3 (''UNKNOWN - Error fetching RDAP data: '' @ exc_text e @ [LF])"
  | (nf) "fst (main env w a) = Exit 3 (''UNKNOWN - Expiry date not found for '' @ domain a @ [LF])"
  | (inv) s where
      "fst (main env w a) = Exit 3 (''UNKNOWN - Invalid expiration date format: '' @ s @ [LF])"
  | (rep) s dl where "fst (main env w a) = report a s dl"
    by blast
  then show ?thesis
  proof cases
    case err
    then show ?thesis using u [of "''Error fetching RDAP data: '' @ exc_text e"] by simp
  next
    case nf
    then show ?thesis using u [of "''Expiry date not found for '' @ domain a"] by simp
  next
    case inv
    then show ?thesis using u [of "''Invalid expiration date format: '' @ s"] by simp
  next
    case rep
    with report_shape [of a s dl] show ?thesis by simp
  qed
qed

lemma main_one_line:
  assumes "load_cached_data env (files w) (domain a) = Inr cached"
    and "LF \<notin> set (domain a)"
    and "\<forall>s w'. get_domain_expiration env w (domain a) = (Return (PyStr s), w') \<longrightarrow> LF \<notin> set s"
    and "\<forall>e fs'. fetch_expiration env (files w) (domain a) (''https://rdap.org/domain/'' @ domain a)
                     = (Raise e, fs') \<longrightarrow> LF \<notin> set (exc_text e)"
  shows "\<exists>state line. fst (main env w a) = Exit state (line @ [LF]) \<and> LF \<notin> set line"
proof -
  have u: "\<exists>state line. fst (main env w a) = Exit state (line @ [LF]) \<and> LF \<notin> set line"
    if "fst (main env w a) = Exit 3 ((p @ x) @ [LF])" "LF \<notin> set p" "LF \<notin> set x" for p x
    using that by (intro exI conjI) (assumption, simp)
  from main_shape [OF assms(1)] consider
    (err) e fs' where
      "fetch_expiration env (files w) (domain a) (''https://rdap.org/domain/'' @ domain a) = (Raise e, fs')"
      "fst (main env w a) = Exit 3 (''UNKNOWN - Error fetching RDAP data: '' @ exc_text e @ [LF])"
  | (nf) "fst (main env w a) = Exit 3 (''UNKNOWN - Expiry date not found for '' @ domain a @ [LF])"
  | (inv) s w' where "get_domain_expiration env w (domain a) = (Return (PyStr s), w')"
      "fst (main env w a) = Exit 3 (''UNKNOWN - Invalid expiration date format: '' @ s @ [LF])"
  | (rep) s w' dl where "get_domain_expiration env w (domain a) = (Return (PyStr s), w')"
      "fst (main env w a) = report a s dl"
    by blast
  then show ?thesis
  proof cases
    case err
    from err(1) assms(4) have "LF \<notin> set (exc_text e)" by blast
    with err(2) show ?thesis
      using u [of "''UNKNOWN - Error fetching RDAP data: ''" "exc_text e"] by (simp add: LF_def)
  next
    case nf
    with assms(2) show ?thesis
      using u [of "''UNKNOWN - Expiry date not found for ''" "domain a"] by (simp add: LF_def)
  next
    case inv
    from inv(1) assms(3) have "LF \<notin> set s" by blast
    with inv(2) show ?thesis
      using u [of "''UNKNOWN - Invalid expiration date format: ''" s] by (simp add: LF_def)
  next
    case rep
    from rep(1) assms(3) have "LF \<notin> set s" by blast
    from report_one_line [OF assms(2) this, of dl] rep(2) show ?thesis by simp
  qed
qed

text \<open>
  C8, as amended. A run of \<^verbatim>\<open>main\<close> (after the arguments are parsed) in which the
  cache is read without an error ends by printing a message and a line feed and by
  leaving with an exit code: the message starts with the status name (OK, WARNING,
  CRITICAL or UNKNOWN) followed by \<^verbatim>\<open>" - "\<close> and details, and the exit code is the
  status's: 0, 1, 2 or 3. The output is exactly one line whenever the domain, the
  expiration string and the text of the error contain no line feed. A run in which
  reading a fresh cache file raises an error ends with that error uncaught: nothing on
  standard output, and exit code 1.
\<close>

theorem main_status_line:
  "(files w (get_cache_file (domain a)) = Some f \<and> clock_load env - mtime f < 28800
      \<and> content f = Inl e \<longrightarrow> load_cached_data env (files w) (domain a) = Inl e)
   \<and> (load_cached_data env (files w) (domain a) = Inl e \<longrightarrow>
        main env w a = (Raise e, w) \<and> run env w a = ([], 1))
   \<and> (load_cached_data env (files w) (domain a) = Inr cached \<longrightarrow>
        (\<exists>state name details.
            fst (main env w a) = Exit state (name @ '' - '' @ details @ [LF])
            \<and> run env w a = (name @ '' - '' @ details @ [LF], state)
            \<and> (name, state) \<in> set [(''OK'', 0), (''WARNING'', 1), (''CRITICAL'', 2), (''UNKNOWN'', 3)]))
   \<and> (load_cached_data env (files w) (domain a) = Inr cached
       \<and> LF \<notin> set (domain a)
       \<and> (\<forall>s w'. get_domain_expiration env w (domain a) = (Return (PyStr s), w') \<longrightarrow> LF \<notin> set s)
       \<and> (\<forall>e fs'. fetch_expiration env (files w) (domain a) (''https://rdap.org/domain/'' @ domain a)
                     = (Raise e, fs') \<longrightarrow> LF \<notin> set (exc_text e))
      \<longrightarrow> (\<exists>state line. fst (main env w a) = Exit state (line @ [LF]) \<and> LF \<notin> set line
            \<and> run env w a = (line @ [LF], state)))"
proof (intro conjI impI)
  assume "files w (get_cache_file (domain a)) = Some f \<and> clock_load env - mtime f < 28800
      \<and> content f = Inl e"
  then show "load_cached_data env (files w) (domain a) = Inl e"
    by (simp add: load_unreadable CACHE_AGE_def)
next
  assume l: "load_cached_data env (files w) (domain a) = Inl e"
  then show m: "main env w a = (Raise e, w)" by (rule main_after_raise)
  then show "run env w a = ([], 1)" by (simp add: run_def)
next
  assume "load_cached_data env (files w) (domain a) = Inr cached"
  from main_status [OF this] obtain state name details where
    m: "fst (main env w a) = Exit state (name @ '' - '' @ details @ [LF])"
    and n: "(name, state) \<in> set [(''OK'', 0), (''WARNING'', 1), (''CRITICAL'', 2), (''UNKNOWN'', 3)]"
    by blast
  from run_exit [OF m] m n
  show "\<exists>state name details.
            fst (main env w a) = Exit state (name @ '' - '' @ details @ [LF])
            \<and> run env w a = (name @ '' - '' @ details @ [LF], state)
            \<and> (name, state) \<in> set [(''OK'', 0), (''WARNING'', 1), (''CRITICAL'', 2), (''UNKNOWN'', 3)]"
    by blast
next
  assume h: "load_cached_data env (files w) (domain a) = Inr cached
       \<and> LF \<notin> set (domain a)
       \<and> (\<forall>s w'. get_domain_expiration env w (domain a) = (Return (PyStr s), w') \<longrightarrow> LF \<notin> set s)
       \<and> (\<forall>e fs'. fetch_expiration env (files w) (domain a) (''https://rdap.org/domain/'' @ domain a)
                     = (Raise e, fs') \<longrightarrow> LF \<notin> set (exc_text e))"
  then have "\<exists>state line. fst (main env w a) = Exit state (line @ [LF]) \<and> LF \<notin> set line"
    by (intro main_one_line [of env w a cached]) simp_all
  then obtain state line where
    m: "fst (main env w a) = Exit state (line @ [LF])" and n: "LF \<notin> set line" by blast
  from run_exit [OF m] m n
  show "\<exists>state line. fst (main env w a) = Exit state (line @ [LF]) \<and> LF \<notin> set line
            \<and> run env w a = (line @ [LF], state)"
    by blast
qed

lemma sample_lookup:
  "get_domain_expiration (answering sample_events) empty_world ''example.com''
     = (Return (PyStr ''2030-08-13T04:00:00Z''),
        \<lparr>files = [get_cache_file ''example.com'' \<mapsto>
                    \<lparr>mtime = 1740000000, content = Inr ''2030-08-13T04:00:00Z''\<rparr>],
         requests_sent = [''https://rdap.org/domain/example.com'']\<rparr>)"
  by (simp add: answering_def sample_env_def sample_events_def empty_world_def
      get_domain_expiration_def load_cached_data_def fetch_expiration_def save_to_cache_def
      Let_def)

lemma sample_fetch:
  "fetch_expiration (answering sample_events) (files empty_world) ''example.com''
      ''https://rdap.org/domain/example.com''
     = (Return (PyStr ''2030-08-13T04:00:00Z''),
        [get_cache_file ''example.com'' \<mapsto>
           \<lparr>mtime = 1740000000, content = Inr ''2030-08-13T04:00:00Z''\<rparr>])"
  by (simp add: answering_def sample_env_def sample_events_def empty_world_def
      fetch_expiration_def save_to_cache_def Let_def)

lemma sample_parse:
  "parse_rdap_date (answering sample_events) ''2030-08-13T04:00:00Z'' = Return 1912824000"
proof -
  have a: "strptime ''2030-08-13T04:00:00Z'' ''%Y-%m-%dT%H:%M:%S.%fZ'' = None"
    by code_simp
  have b: "strptime ''2030-08-13T04:00:00Z'' ''%Y-%m-%dT%H:%M:%SZ''
             = Some \<lparr>year = 2030, month = 8, day = 13, hour = 4, minute = 0, second = 0,
                      microsecond = 0\<rparr>"
    by code_simp
  have m: "mktime (answering sample_events)
             \<lparr>year = 2030, month = 8, day = 13, hour = 4, minute = 0, second = 0,
              microsecond = 0\<rparr> = Some 1912824000"
    by code_simp
  have "py_int (round_float (real_of_int 1912824000 + round_float (real_of_int 0 / 1000000)))
          = 1912824000"
    by (rule trunc_timestamp) simp_all
  then show ?thesis
    by (simp add: parse_rdap_date_def try_format_def a b timestamp_def m)
qed

lemma str_int_2000: "str_int 2000 = ''2000''"
  by code_simp

lemma sample_main:
  "fst (main (answering sample_events) empty_world sample_args)
     = Exit 0 (''OK - Domain example.com will expire in 2000 days (2030-08-13T04:00:00Z).''
               @ [LF])"
proof -
  have d: "domain sample_args = ''example.com''" by (simp add: sample_args_def)
  have c: "py_int (clock_main (answering sample_events)) = 1740000000"
    by (simp add: answering_def sample_env_def py_int_def)
  have "days_left 1912824000 1740000000 = 2000" by (simp add: days_left_def)
  with main_after_return [of "answering sample_events" empty_world sample_args, unfolded d,
      OF sample_lookup]
  show ?thesis
    by (simp add: sample_parse c report_def sample_args_def die_def STATE_OK_def str_int_2000)
qed

lemma sample_unreadable:
  "files (unreadable_cache ''example.com'' 1739990000) (get_cache_file (domain sample_args))
     = Some \<lparr>mtime = 1739990000,
             content = Inl (permission_denied (get_cache_file ''example.com''))\<rparr>"
  "clock_load sample_env - mtime \<lparr>mtime = 1739990000,
      content = Inl (permission_denied (get_cache_file ''example.com''))\<rparr> < 28800"
  "content \<lparr>mtime = 1739990000,
      content = Inl (permission_denied (get_cache_file ''example.com''))\<rparr>
     = Inl (permission_denied (get_cache_file ''example.com''))"
  by (simp_all add: unreadable_cache_def sample_args_def sample_env_def)

text \<open>With the sample events, 2000 days before expiry, the run prints one OK line. With
  a fresh cache file that may not be read, the run prints nothing and leaves with exit
  code 1.\<close>

theorem main_status_line_witness:
  "LF \<notin> set (domain sample_args)
   \<and> fst (main (answering sample_events) empty_world sample_args)
     = Exit 0 (''OK - Domain example.com will expire in 2000 days (2030-08-13T04:00:00Z).''
               @ [LF])
   \<and> (\<exists>state line. fst (main (answering sample_events) empty_world sample_args)
                      = Exit state (line @ [LF]) \<and> LF \<notin> set line
         \<and> run (answering sample_events) empty_world sample_args = (line @ [LF], state))
   \<and> main sample_env (unreadable_cache ''example.com'' 1739990000) sample_args
     = (Raise (permission_denied (get_cache_file ''example.com'')),
        unreadable_cache ''example.com'' 1739990000)
   \<and> run sample_env (unreadable_cache ''example.com'' 1739990000) sample_args = ([], 1)"
proof -
  have d: "domain sample_args = ''example.com''" by (simp add: sample_args_def)
  have 0: "load_cached_data (answering sample_events) (files empty_world) (domain sample_args)
             = Inr PyNone"
    by (rule empty_world_miss)
  have 1: "LF \<notin> set (domain sample_args)" by (simp add: d LF_def)
  have 2: "\<forall>s w'. get_domain_expiration (answering sample_events) empty_world (domain sample_args)
             = (Return (PyStr s), w') \<longrightarrow> LF \<notin> set s"
    unfolding d sample_lookup by (simp add: LF_def)
  have 3: "\<forall>e fs'. fetch_expiration (answering sample_events) (files empty_world)
             (domain sample_args) (''https://rdap.org/domain/'' @ domain sample_args)
             = (Raise e, fs') \<longrightarrow> LF \<notin> set (exc_text e)"
    unfolding d using sample_fetch by simp
  from 0 1 2 3
    main_status_line [where env = "answering sample_events" and w = empty_world
      and a = sample_args and cached = PyNone]
  have a: "\<exists>state line. fst (main (answering sample_events) empty_world sample_args)
                      = Exit state (line @ [LF]) \<and> LF \<notin> set line
         \<and> run (answering sample_events) empty_world sample_args = (line @ [LF], state)"
    by blast
  from sample_unreadable
    main_status_line [where env = sample_env and w = "unreadable_cache ''example.com'' 1739990000"
      and a = sample_args
      and f = "\<lparr>mtime = 1739990000,
                content = Inl (permission_denied (get_cache_file ''example.com''))\<rparr>"
      and e = "permission_denied (get_cache_file ''example.com'')"]
  have b: "main sample_env (unreadable_cache ''example.com'' 1739990000) sample_args
     = (Raise (permission_denied (get_cache_file ''example.com'')),
        unreadable_cache ''example.com'' 1739990000)
   \<and> run sample_env (unreadable_cache ''example.com'' 1739990000) sample_args = ([], 1)"
    by blast
  from 1 sample_main a b show ?thesis by blast
qed

text \<open>An expiration date with a line feed inside is printed as it is: two lines.\<close>

theorem two_line_output_counterexample:
  "fst (main (answering [PyDict [(''eventAction'', PyStr ''expiration''),
                                 (''eventDate'', PyStr (''2030-08-13'' @ [LF] @ ''04:00:00Z''))]])
          empty_world sample_args)
     = Exit 3 (''UNKNOWN - Invalid expiration date format: 2030-08-13'' @ [LF] @ ''04:00:00Z''
               @ [LF])
   \<and> count_list (''UNKNOWN - Invalid expiration date format: 2030-08-13'' @ [LF] @ ''04:00:00Z''
               @ [LF]) LF = 2"
  by code_simp

subsection \<open>Failures\<close>



lemma LF_free_message: "LF \<notin> set p \<Longrightarrow> LF \<notin> set x \<Longrightarrow> LF \<notin> set (p @ x)"
  by simp






subsection \<open>Reading the date\<close>

lemma mktime_fixed_offset:
  assumes u: "utcoffset env = (\<lambda>u. k)"
    and t: "(ymd2ord (year dt) (month dt) (day dt) - ymd2ord 1970 1 1) * 86400
             + hour dt * 3600 + minute dt * 60 + second dt = t"
    and r: "in_year_range (t + k)" "in_year_range t" "in_year_range (t - 86400)"
  shows "mktime env dt = Some (t - k)"
proof -
  have 1: "local_seconds env t = Some (t + k)"
    using r(1) by (simp add: local_seconds_def u)
  have 2: "local_seconds env (t - k) = Some t"
    using r(2) by (simp add: local_seconds_def u)
  have 3: "local_seconds env (t - k - 86400) = Some (t - 86400)"
    using r(3) by (simp add: local_seconds_def u)
  show ?thesis
    unfolding mktime_def t Let_def by (simp add: 1 2 3)
qed

lemma match_format_example:
  "match_format (compile_format ''%Y-%m-%dT%H:%M:%S.%fZ'') ''2025-03-01T00:00:00.123456Z''
     = [([(CHR ''Y'', ''2025''), (CHR ''m'', ''03''), (CHR ''d'', ''01''), (CHR ''H'', ''00''),
          (CHR ''M'', ''00''), (CHR ''S'', ''00''), (CHR ''f'', ''123456'')], [])]"
  by code_simp

lemma strptime_example:
  "strptime ''2025-03-01T00:00:00.123456Z'' ''%Y-%m-%dT%H:%M:%S.%fZ''
     = Some \<lparr>year = 2025, month = 3, day = 1, hour = 0, minute = 0, second = 0,
              microsecond = 123456\<rparr>"
  "strptime ''2025-03-01T00:00:00Z'' ''%Y-%m-%dT%H:%M:%S.%fZ'' = None"
  "strptime ''2025-03-01T00:00:00Z'' ''%Y-%m-%dT%H:%M:%SZ''
     = Some \<lparr>year = 2025, month = 3, day = 1, hour = 0, minute = 0, second = 0,
              microsecond = 0\<rparr>"
proof -
  show "strptime ''2025-03-01T00:00:00.123456Z'' ''%Y-%m-%dT%H:%M:%S.%fZ''
     = Some \<lparr>year = 2025, month = 3, day = 1, hour = 0, minute = 0, second = 0,
              microsecond = 123456\<rparr>"
    unfolding strptime_def match_format_example
    by (simp add: group_int_def int_of_str_def strip_def is_space_def whitespace_def
        check_date_fields_def check_time_fields_def days_in_month_def is_leap_def
        DAYS_IN_MONTH_def MINYEAR_def MAXYEAR_def)
  show "strptime ''2025-03-01T00:00:00Z'' ''%Y-%m-%dT%H:%M:%S.%fZ'' = None"
    by code_simp
  show "strptime ''2025-03-01T00:00:00Z'' ''%Y-%m-%dT%H:%M:%SZ''
     = Some \<lparr>year = 2025, month = 3, day = 1, hour = 0, minute = 0, second = 0,
              microsecond = 0\<rparr>"
    by code_simp
qed

lemma epoch_example: "(ymd2ord 2025 3 1 - ymd2ord 1970 1 1) * 86400 = 1740787200"
  by code_simp

lemma in_year_range_example:
  "in_year_range 1740700800" "in_year_range 1740787200" "in_year_range 1740790800"
  by code_simp+

lemma try_format_example:
  assumes u: "utcoffset env = (\<lambda>u. k)"
    and r: "in_year_range (1740787200 + k)" "0 < 1740787200 - k" "1740787200 - k < 2 ^ 33"
    and p: "strptime date_str format
              = Some \<lparr>year = 2025, month = 3, day = 1, hour = 0, minute = 0, second = 0,
                       microsecond = us\<rparr>"
    and f: "0 \<le> us" "us < 1000000"
  shows "try_format env date_str format = Some (1740787200 - k)"
proof -
  have m: "mktime env \<lparr>year = 2025, month = 3, day = 1, hour = 0, minute = 0, second = 0,
              microsecond = us\<rparr> = Some (1740787200 - k)"
    using epoch_example in_year_range_example r(1)
    by (intro mktime_fixed_offset [OF u]) simp_all
  have "try_format env date_str format
          = Some (py_int (round_float (real_of_int (1740787200 - k)
                                        + round_float (real_of_int us / 1000000))))"
    by (simp only: try_format_def p timestamp_def m option.case datetime.select_convs)
  also have "\<dots> = Some (1740787200 - k)"
    by (simp only: trunc_timestamp [OF r(2,3) f])
  finally show ?thesis .
qed

text \<open>Where local time is UTC, both sample strings give the epoch second of
  2025-03-01T00:00:00 UTC.\<close>

lemma parse_rdap_date_utc_example:
  "parse_rdap_date sample_env ''2025-03-01T00:00:00.123456Z'' = Return 1740787200"
  "parse_rdap_date sample_env ''2025-03-01T00:00:00Z'' = Return 1740787200"
proof -
  have u: "utcoffset sample_env = (\<lambda>u. 0)" by (simp add: sample_env_def)
  have r: "in_year_range (1740787200 + 0)" using in_year_range_example by simp
  have a: "try_format sample_env ''2025-03-01T00:00:00.123456Z'' ''%Y-%m-%dT%H:%M:%S.%fZ''
             = Some (1740787200 - 0)"
    by (rule try_format_example [OF u r _ _ strptime_example(1)]) simp_all
  have b: "try_format sample_env ''2025-03-01T00:00:00Z'' ''%Y-%m-%dT%H:%M:%SZ''
             = Some (1740787200 - 0)"
    by (rule try_format_example [OF u r _ _ strptime_example(3)]) simp_all
  have c: "try_format sample_env ''2025-03-01T00:00:00Z'' ''%Y-%m-%dT%H:%M:%S.%fZ'' = None"
    by (simp add: try_format_def strptime_example)
  show "parse_rdap_date sample_env ''2025-03-01T00:00:00.123456Z'' = Return 1740787200"
    using a by (simp add: parse_rdap_date_def)
  show "parse_rdap_date sample_env ''2025-03-01T00:00:00Z'' = Return 1740787200"
    using b c by (simp add: parse_rdap_date_def)
qed

text \<open>
  C1. The claim is that a date string in either format is read as a UTC instant. The code
  reads it as local time: where local time is one hour ahead of UTC, both sample strings
  give 1740783600, one hour before the epoch second 1740787200 of 2025-03-01T00:00:00
  UTC.
\<close>

theorem parse_rdap_date_local_time:
  "parse_rdap_date (sample_env\<lparr>utcoffset := (\<lambda>u. 3600)\<rparr>) ''2025-03-01T00:00:00.123456Z''
     = Return 1740783600
   \<and> parse_rdap_date (sample_env\<lparr>utcoffset := (\<lambda>u. 3600)\<rparr>) ''2025-03-01T00:00:00Z''
     = Return 1740783600
   \<and> (ymd2ord 2025 3 1 - ymd2ord 1970 1 1) * 86400 = 1740787200"
proof -
  have u: "utcoffset (sample_env\<lparr>utcoffset := (\<lambda>u. 3600)\<rparr>) = (\<lambda>u. 3600)" by simp
  have r: "in_year_range (1740787200 + 3600)" using in_year_range_example by simp
  have a: "try_format (sample_env\<lparr>utcoffset := (\<lambda>u. 3600)\<rparr>)
             ''2025-03-01T00:00:00.123456Z'' ''%Y-%m-%dT%H:%M:%S.%fZ''
             = Some (1740787200 - 3600)"
    by (rule try_format_example [OF u r _ _ strptime_example(1)]) simp_all
  have b: "try_format (sample_env\<lparr>utcoffset := (\<lambda>u. 3600)\<rparr>)
             ''2025-03-01T00:00:00Z'' ''%Y-%m-%dT%H:%M:%SZ''
             = Some (1740787200 - 3600)"
    by (rule try_format_example [OF u r _ _ strptime_example(3)]) simp_all
  have c: "try_format (sample_env\<lparr>utcoffset := (\<lambda>u. 3600)\<rparr>)
             ''2025-03-01T00:00:00Z'' ''%Y-%m-%dT%H:%M:%S.%fZ'' = None"
    by (simp add: try_format_def strptime_example)
  have x: "parse_rdap_date (sample_env\<lparr>utcoffset := (\<lambda>u. 3600)\<rparr>)
             ''2025-03-01T00:00:00.123456Z'' = Return 1740783600"
    using a by (simp add: parse_rdap_date_def)
  have y: "parse_rdap_date (sample_env\<lparr>utcoffset := (\<lambda>u. 3600)\<rparr>)
             ''2025-03-01T00:00:00Z'' = Return 1740783600"
    using b c by (simp add: parse_rdap_date_def)
  from x y epoch_example show ?thesis by blast
qed

end
